theory Spec2Isabelle
  imports Main
begin

section \<open>Values of the schema layer\<close>

text \<open>
  The source file \<^verbatim>\<open>app/models.py\<close> declares SQLModel classes: four tables
  (\<^verbatim>\<open>table=True\<close>) and six request/response schemas (\<^verbatim>\<open>table=False\<close>). A class
  declaration is a program: the library (SQLModel on pydantic 2) derives from it the
  function that turns keyword arguments into an instance or into a list of field errors.
  That function is what is embedded here, class by class and field by field, in the order
  of the declarations. BarcodeCreate, NutritionSummary and HealthScore take no part in the
  properties below and are left out.

  A Python \<^verbatim>\<open>str\<close> is a \<open>string\<close>, one \<open>char\<close> for each character, so that
  \<open>length\<close> is Python's \<^verbatim>\<open>len\<close>. A Python \<^verbatim>\<open>int\<close> is an \<open>int\<close>.
\<close>

subsection \<open>Enumerations\<close>

datatype NutriScore = A | B | C | D | E

fun NutriScore_value :: "NutriScore \<Rightarrow> string" where
  "NutriScore_value A = ''A''"
| "NutriScore_value B = ''B''"
| "NutriScore_value C = ''C''"
| "NutriScore_value D = ''D''"
| "NutriScore_value E = ''E''"

definition NutriScore_members :: "NutriScore list" where
  "NutriScore_members = [A, B, C, D, E]"

datatype HealthAssessment = GOOD | MODERATE | NOT_RECOMMENDED

fun HealthAssessment_value :: "HealthAssessment \<Rightarrow> string" where
  "HealthAssessment_value GOOD = ''Good for health''"
| "HealthAssessment_value MODERATE = ''Moderate''"
| "HealthAssessment_value NOT_RECOMMENDED = ''Not recommended''"

definition HealthAssessment_members :: "HealthAssessment list" where
  "HealthAssessment_members = [GOOD, MODERATE, NOT_RECOMMENDED]"

subsection \<open>Decimal and datetime\<close>

text \<open>
  \<^verbatim>\<open>decimal.Decimal\<close> as Python represents it: a sign, a coefficient and an exponent
  (\<open>Finite s c e\<close> is \<open>(-1)^s * c * 10^e\<close>, so \<^verbatim>\<open>Decimal('1.50')\<close> is
  \<open>Finite False 150 (-2)\<close> and differs from \<^verbatim>\<open>Decimal('1.5')\<close>), or one of the special
  values: a signed infinity, or a signed NaN that is quiet or signalling and carries a
  payload.
\<close>

datatype Decimal = Finite bool nat int | Infinity bool | NaN bool bool nat

fun is_finite :: "Decimal \<Rightarrow> bool" where
  "is_finite (Finite s c e) = True"
| "is_finite (Infinity s) = False"
| "is_finite (NaN s q p) = False"

fun is_signed :: "Decimal \<Rightarrow> bool" where
  "is_signed (Finite s c e) = s"
| "is_signed (Infinity s) = s"
| "is_signed (NaN s q p) = s"

text \<open>A naive \<^verbatim>\<open>datetime\<close>, as microseconds since the epoch.\<close>

datatype datetime = Datetime int

text \<open>
  \<^verbatim>\<open>datetime.utcnow\<close> reads the system clock. The clock is the sequence of its
  readings together with the number of readings taken so far; a call returns the next
  reading.
\<close>

record clock =
  readings :: "nat \<Rightarrow> datetime"
  taken :: nat

definition utcnow :: "clock \<Rightarrow> datetime \<times> clock" where
  "utcnow c = (readings c (taken c), c\<lparr>taken := Suc (taken c)\<rparr>)"

subsection \<open>Keyword arguments and field errors\<close>

text \<open>
  What a caller passes for one field: nothing, \<^verbatim>\<open>None\<close>, or a value of the field's
  declared Python type (for an enumeration field, a string: both enumerations derive from
  \<^verbatim>\<open>str\<close>). Values of other types, and the library's coercions between types, are
  outside this model.
\<close>

datatype 'a arg = Omitted | PyNone | Given 'a

text \<open>The kinds of error the validation reports for a field.\<close>

datatype error_type =
    Missing
  | String_type
  | String_too_long nat
  | Enum
  | Finite_number
  | Int_type
  | Bool_type
  | Datetime_type

type_synonym errors = "(string \<times> error_type) list"

text \<open>\<^verbatim>\<open>str\<close> with \<^verbatim>\<open>Field(max_length=n)\<close>, and \<^verbatim>\<open>str\<close> without a bound.\<close>

fun str_field :: "nat option \<Rightarrow> string \<Rightarrow> error_type + string" where
  "str_field None s = Inr s"
| "str_field (Some n) s = (if n < length s then Inl (String_too_long n) else Inr s)"

text \<open>
  \<^verbatim>\<open>Decimal\<close>: the library's validator of a Decimal field rejects a value that is not
  finite unless the field sets \<^verbatim>\<open>allow_inf_nan\<close>, which no field of the source does.
\<close>

fun decimal_field :: "Decimal \<Rightarrow> error_type + Decimal" where
  "decimal_field d = (if is_finite d then Inr d else Inl Finite_number)"

text \<open>An enumeration: the member whose value is the input, as \<^verbatim>\<open>NutriScore(v)\<close> finds it.\<close>

fun NutriScore_field :: "string \<Rightarrow> error_type + NutriScore" where
  "NutriScore_field v =
     (case find (\<lambda>m. NutriScore_value m = v) NutriScore_members of
        None \<Rightarrow> Inl Enum
      | Some m \<Rightarrow> Inr m)"

fun HealthAssessment_field :: "string \<Rightarrow> error_type + HealthAssessment" where
  "HealthAssessment_field v =
     (case find (\<lambda>m. HealthAssessment_value m = v) HealthAssessment_members of
        None \<Rightarrow> Inl Enum
      | Some m \<Rightarrow> Inr m)"

text \<open>\<^verbatim>\<open>List[str]\<close>, \<^verbatim>\<open>Dict[str, Any]\<close>, \<^verbatim>\<open>bool\<close>, \<^verbatim>\<open>int\<close>, \<^verbatim>\<open>datetime\<close>: no constraint beyond the type.\<close>

fun plain_field :: "'a \<Rightarrow> error_type + 'a" where
  "plain_field v = Inr v"

text \<open>
  A field with no default is required: omitting it is an error, and so is \<^verbatim>\<open>None\<close>
  (the error of the field's type, passed as \<open>t\<close>).
\<close>

fun required :: "error_type \<Rightarrow> ('a \<Rightarrow> error_type + 'b) \<Rightarrow> 'a arg \<Rightarrow> error_type + 'b" where
  "required t v Omitted = Inl Missing"
| "required t v PyNone = Inl t"
| "required t v (Given x) = v x"

text \<open>\<^verbatim>\<open>Optional[T] = Field(default=None, ...)\<close>.\<close>

fun optional :: "('a \<Rightarrow> error_type + 'b) \<Rightarrow> 'a arg \<Rightarrow> error_type + 'b option" where
  "optional v Omitted = Inr None"
| "optional v PyNone = Inr None"
| "optional v (Given x) = (case v x of Inl e \<Rightarrow> Inl e | Inr y \<Rightarrow> Inr (Some y))"

text \<open>\<^verbatim>\<open>datetime = Field(default_factory=datetime.utcnow)\<close>: the factory runs when, and only
  when, the field is omitted.\<close>

fun utcnow_default :: "clock \<Rightarrow> datetime arg \<Rightarrow> (error_type + datetime) \<times> clock" where
  "utcnow_default c Omitted = (case utcnow c of (t, c') \<Rightarrow> (Inr t, c'))"
| "utcnow_default c PyNone = (Inl Datetime_type, c)"
| "utcnow_default c (Given t) = (Inr t, c)"

text \<open>The errors of one field, under the field's name.\<close>

fun err :: "string \<Rightarrow> error_type + 'a \<Rightarrow> errors" where
  "err f (Inl e) = [(f, e)]"
| "err f (Inr v) = []"

text \<open>The errors a validation reports for the field \<open>f\<close> (none when it succeeds).\<close>

fun errors_at :: "string \<Rightarrow> errors + 'a \<Rightarrow> error_type list" where
  "errors_at f (Inl es) = map snd (filter (\<lambda>fe. fst fe = f) es)"
| "errors_at f (Inr v) = []"

section \<open>Request schemas\<close>

text \<open>
  The keyword arguments of \<^verbatim>\<open>FoodItemCreate\<close> and \<^verbatim>\<open>FoodItemUpdate\<close>, which declare
  the same eighteen fields with the same types.
\<close>

record food_kwargs =
  name :: "string arg"
  brand :: "string arg"
  description :: "string arg"
  energy_kj :: "Decimal arg"
  energy_kcal :: "Decimal arg"
  fat :: "Decimal arg"
  saturated_fat :: "Decimal arg"
  carbohydrates :: "Decimal arg"
  sugars :: "Decimal arg"
  fiber :: "Decimal arg"
  protein :: "Decimal arg"
  salt :: "Decimal arg"
  sodium :: "Decimal arg"
  nutri_score :: "string arg"
  health_assessment :: "string arg"
  ingredients :: "string list arg"
  allergens :: "string list arg"
  categories :: "string list arg"

definition no_kwargs :: food_kwargs where
  "no_kwargs =
     \<lparr>food_kwargs.name = Omitted, brand = Omitted, description = Omitted,
      energy_kj = Omitted, energy_kcal = Omitted, fat = Omitted, saturated_fat = Omitted,
      carbohydrates = Omitted, sugars = Omitted, fiber = Omitted, protein = Omitted,
      salt = Omitted, sodium = Omitted, nutri_score = Omitted, health_assessment = Omitted,
      ingredients = Omitted, allergens = Omitted, categories = Omitted\<rparr>"

record FoodItemCreate =
  name :: string
  brand :: "string option"
  description :: "string option"
  energy_kj :: "Decimal option"
  energy_kcal :: "Decimal option"
  fat :: "Decimal option"
  saturated_fat :: "Decimal option"
  carbohydrates :: "Decimal option"
  sugars :: "Decimal option"
  fiber :: "Decimal option"
  protein :: "Decimal option"
  salt :: "Decimal option"
  sodium :: "Decimal option"
  nutri_score :: "NutriScore option"
  health_assessment :: "HealthAssessment option"
  ingredients :: "string list option"
  allergens :: "string list option"
  categories :: "string list option"

definition validate_FoodItemCreate :: "food_kwargs \<Rightarrow> errors + FoodItemCreate" where
  "validate_FoodItemCreate k =
     (let name' = required String_type (str_field (Some 255)) (food_kwargs.name k);
          brand' = optional (str_field (Some 255)) (food_kwargs.brand k);
          description' = optional (str_field (Some 1000)) (food_kwargs.description k);
          energy_kj' = optional decimal_field (food_kwargs.energy_kj k);
          energy_kcal' = optional decimal_field (food_kwargs.energy_kcal k);
          fat' = optional decimal_field (food_kwargs.fat k);
          saturated_fat' = optional decimal_field (food_kwargs.saturated_fat k);
          carbohydrates' = optional decimal_field (food_kwargs.carbohydrates k);
          sugars' = optional decimal_field (food_kwargs.sugars k);
          fiber' = optional decimal_field (food_kwargs.fiber k);
          protein' = optional decimal_field (food_kwargs.protein k);
          salt' = optional decimal_field (food_kwargs.salt k);
          sodium' = optional decimal_field (food_kwargs.sodium k);
          nutri_score' = optional NutriScore_field (food_kwargs.nutri_score k);
          health_assessment' = optional HealthAssessment_field (food_kwargs.health_assessment k);
          ingredients' = optional plain_field (food_kwargs.ingredients k);
          allergens' = optional plain_field (food_kwargs.allergens k);
          categories' = optional plain_field (food_kwargs.categories k);
          es = err ''name'' name' @ err ''brand'' brand' @ err ''description'' description'
             @ err ''energy_kj'' energy_kj' @ err ''energy_kcal'' energy_kcal'
             @ err ''fat'' fat' @ err ''saturated_fat'' saturated_fat'
             @ err ''carbohydrates'' carbohydrates' @ err ''sugars'' sugars'
             @ err ''fiber'' fiber' @ err ''protein'' protein' @ err ''salt'' salt'
             @ err ''sodium'' sodium' @ err ''nutri_score'' nutri_score'
             @ err ''health_assessment'' health_assessment'
             @ err ''ingredients'' ingredients' @ err ''allergens'' allergens'
             @ err ''categories'' categories'
      in if es = [] then
           Inr \<lparr>FoodItemCreate.name = projr name', brand = projr brand',
                description = projr description', energy_kj = projr energy_kj',
                energy_kcal = projr energy_kcal', fat = projr fat',
                saturated_fat = projr saturated_fat', carbohydrates = projr carbohydrates',
                sugars = projr sugars', fiber = projr fiber', protein = projr protein',
                salt = projr salt', sodium = projr sodium', nutri_score = projr nutri_score',
                health_assessment = projr health_assessment',
                ingredients = projr ingredients', allergens = projr allergens',
                categories = projr categories'\<rparr>
         else Inl es)"

record FoodItemUpdate =
  name :: "string option"
  brand :: "string option"
  description :: "string option"
  energy_kj :: "Decimal option"
  energy_kcal :: "Decimal option"
  fat :: "Decimal option"
  saturated_fat :: "Decimal option"
  carbohydrates :: "Decimal option"
  sugars :: "Decimal option"
  fiber :: "Decimal option"
  protein :: "Decimal option"
  salt :: "Decimal option"
  sodium :: "Decimal option"
  nutri_score :: "NutriScore option"
  health_assessment :: "HealthAssessment option"
  ingredients :: "string list option"
  allergens :: "string list option"
  categories :: "string list option"

definition validate_FoodItemUpdate :: "food_kwargs \<Rightarrow> errors + FoodItemUpdate" where
  "validate_FoodItemUpdate k =
     (let name' = optional (str_field (Some 255)) (food_kwargs.name k);
          brand' = optional (str_field (Some 255)) (food_kwargs.brand k);
          description' = optional (str_field (Some 1000)) (food_kwargs.description k);
          energy_kj' = optional decimal_field (food_kwargs.energy_kj k);
          energy_kcal' = optional decimal_field (food_kwargs.energy_kcal k);
          fat' = optional decimal_field (food_kwargs.fat k);
          saturated_fat' = optional decimal_field (food_kwargs.saturated_fat k);
          carbohydrates' = optional decimal_field (food_kwargs.carbohydrates k);
          sugars' = optional decimal_field (food_kwargs.sugars k);
          fiber' = optional decimal_field (food_kwargs.fiber k);
          protein' = optional decimal_field (food_kwargs.protein k);
          salt' = optional decimal_field (food_kwargs.salt k);
          sodium' = optional decimal_field (food_kwargs.sodium k);
          nutri_score' = optional NutriScore_field (food_kwargs.nutri_score k);
          health_assessment' = optional HealthAssessment_field (food_kwargs.health_assessment k);
          ingredients' = optional plain_field (food_kwargs.ingredients k);
          allergens' = optional plain_field (food_kwargs.allergens k);
          categories' = optional plain_field (food_kwargs.categories k);
          es = err ''name'' name' @ err ''brand'' brand'
             @ err ''description'' description' @ err ''energy_kj'' energy_kj'
             @ err ''energy_kcal'' energy_kcal' @ err ''fat'' fat'
             @ err ''saturated_fat'' saturated_fat'
             @ err ''carbohydrates'' carbohydrates' @ err ''sugars'' sugars'
             @ err ''fiber'' fiber' @ err ''protein'' protein' @ err ''salt'' salt'
             @ err ''sodium'' sodium' @ err ''nutri_score'' nutri_score'
             @ err ''health_assessment'' health_assessment'
             @ err ''ingredients'' ingredients' @ err ''allergens'' allergens'
             @ err ''categories'' categories'
      in if es = [] then
           Inr \<lparr>FoodItemUpdate.name = projr name', brand = projr brand',
                description = projr description', energy_kj = projr energy_kj',
                energy_kcal = projr energy_kcal', fat = projr fat',
                saturated_fat = projr saturated_fat',
                carbohydrates = projr carbohydrates', sugars = projr sugars',
                fiber = projr fiber', protein = projr protein', salt = projr salt',
                sodium = projr sodium', nutri_score = projr nutri_score',
                health_assessment = projr health_assessment',
                ingredients = projr ingredients', allergens = projr allergens',
                categories = projr categories'\<rparr>
         else Inl es)"

section \<open>Tables\<close>

text \<open>
  The validation of a table class, \<^verbatim>\<open>Model.model_validate\<close>, checks the declared fields as
  that of a schema does, and runs the default factories of the omitted fields. (The plain
  constructor of a table class runs the default factories too but checks nothing; for
  FoodItem it is \<open>FoodItem_init\<close> below.) The \<^verbatim>\<open>Relationship\<close> attributes of a table class are not fields: they
  are read from the other table through the foreign key.
\<close>

record FoodItem_kwargs = food_kwargs +
  id :: "int arg"
  created_at :: "datetime arg"
  updated_at :: "datetime arg"

record FoodItem =
  id :: "int option"
  name :: string
  brand :: "string option"
  description :: "string option"
  energy_kj :: "Decimal option"
  energy_kcal :: "Decimal option"
  fat :: "Decimal option"
  saturated_fat :: "Decimal option"
  carbohydrates :: "Decimal option"
  sugars :: "Decimal option"
  fiber :: "Decimal option"
  protein :: "Decimal option"
  salt :: "Decimal option"
  sodium :: "Decimal option"
  nutri_score :: "NutriScore option"
  health_assessment :: "HealthAssessment option"
  ingredients :: "string list option"
  allergens :: "string list option"
  categories :: "string list option"
  created_at :: datetime
  updated_at :: datetime

definition validate_FoodItem :: "clock \<Rightarrow> FoodItem_kwargs \<Rightarrow> (errors + FoodItem) \<times> clock" where
  "validate_FoodItem c k =
     (let id' = optional plain_field (FoodItem_kwargs.id k);
          name' = required String_type (str_field (Some 255)) (food_kwargs.name k);
          brand' = optional (str_field (Some 255)) (food_kwargs.brand k);
          description' = optional (str_field (Some 1000)) (food_kwargs.description k);
          energy_kj' = optional decimal_field (food_kwargs.energy_kj k);
          energy_kcal' = optional decimal_field (food_kwargs.energy_kcal k);
          fat' = optional decimal_field (food_kwargs.fat k);
          saturated_fat' = optional decimal_field (food_kwargs.saturated_fat k);
          carbohydrates' = optional decimal_field (food_kwargs.carbohydrates k);
          sugars' = optional decimal_field (food_kwargs.sugars k);
          fiber' = optional decimal_field (food_kwargs.fiber k);
          protein' = optional decimal_field (food_kwargs.protein k);
          salt' = optional decimal_field (food_kwargs.salt k);
          sodium' = optional decimal_field (food_kwargs.sodium k);
          nutri_score' = optional NutriScore_field (food_kwargs.nutri_score k);
          health_assessment' = optional HealthAssessment_field (food_kwargs.health_assessment k);
          ingredients' = optional plain_field (food_kwargs.ingredients k);
          allergens' = optional plain_field (food_kwargs.allergens k);
          categories' = optional plain_field (food_kwargs.categories k);
          (created_at', c1) = utcnow_default c (FoodItem_kwargs.created_at k);
          (updated_at', c2) = utcnow_default c1 (FoodItem_kwargs.updated_at k);
          es = err ''id'' id' @ err ''name'' name' @ err ''brand'' brand'
             @ err ''description'' description' @ err ''energy_kj'' energy_kj'
             @ err ''energy_kcal'' energy_kcal' @ err ''fat'' fat'
             @ err ''saturated_fat'' saturated_fat'
             @ err ''carbohydrates'' carbohydrates' @ err ''sugars'' sugars'
             @ err ''fiber'' fiber' @ err ''protein'' protein' @ err ''salt'' salt'
             @ err ''sodium'' sodium' @ err ''nutri_score'' nutri_score'
             @ err ''health_assessment'' health_assessment'
             @ err ''ingredients'' ingredients' @ err ''allergens'' allergens'
             @ err ''categories'' categories' @ err ''created_at'' created_at'
             @ err ''updated_at'' updated_at'
      in (if es = [] then
           Inr \<lparr>FoodItem.id = projr id', name = projr name', brand = projr brand',
                description = projr description', energy_kj = projr energy_kj',
                energy_kcal = projr energy_kcal', fat = projr fat',
                saturated_fat = projr saturated_fat',
                carbohydrates = projr carbohydrates', sugars = projr sugars',
                fiber = projr fiber', protein = projr protein', salt = projr salt',
                sodium = projr sodium', nutri_score = projr nutri_score',
                health_assessment = projr health_assessment',
                ingredients = projr ingredients', allergens = projr allergens',
                categories = projr categories', created_at = projr created_at',
                updated_at = projr updated_at'\<rparr>
          else Inl es, c2))"

text \<open>
  The plain constructor of the table class, \<^verbatim>\<open>FoodItem(**kwargs)\<close>: SQLModel does not
  validate the instances of a table class when it constructs them. Each attribute is set
  to what the caller passed, whatever it is; an omitted field gets its default (\<^verbatim>\<open>None\<close>,
  or what the default factory returns), and an omitted field with no default is left
  unset and reads as \<^verbatim>\<open>None\<close>. The attributes of such an instance are not known to be
  of the declared types: an enumeration attribute holds the string that was passed.
\<close>

fun stored :: "'a arg \<Rightarrow> 'a option" where
  "stored Omitted = None"
| "stored PyNone = None"
| "stored (Given v) = Some v"

fun stored_utcnow :: "clock \<Rightarrow> datetime arg \<Rightarrow> datetime option \<times> clock" where
  "stored_utcnow c Omitted = (case utcnow c of (t, c') \<Rightarrow> (Some t, c'))"
| "stored_utcnow c PyNone = (None, c)"
| "stored_utcnow c (Given t) = (Some t, c)"

record FoodItem_object =
  id :: "int option"
  name :: "string option"
  brand :: "string option"
  description :: "string option"
  energy_kj :: "Decimal option"
  energy_kcal :: "Decimal option"
  fat :: "Decimal option"
  saturated_fat :: "Decimal option"
  carbohydrates :: "Decimal option"
  sugars :: "Decimal option"
  fiber :: "Decimal option"
  protein :: "Decimal option"
  salt :: "Decimal option"
  sodium :: "Decimal option"
  nutri_score :: "string option"
  health_assessment :: "string option"
  ingredients :: "string list option"
  allergens :: "string list option"
  categories :: "string list option"
  created_at :: "datetime option"
  updated_at :: "datetime option"

definition FoodItem_init :: "clock \<Rightarrow> FoodItem_kwargs \<Rightarrow> FoodItem_object \<times> clock" where
  "FoodItem_init c k =
     (let (created_at', c1) = stored_utcnow c (FoodItem_kwargs.created_at k);
          (updated_at', c2) = stored_utcnow c1 (FoodItem_kwargs.updated_at k)
      in (\<lparr>FoodItem_object.id = stored (FoodItem_kwargs.id k),
           FoodItem_object.name = stored (food_kwargs.name k),
           FoodItem_object.brand = stored (food_kwargs.brand k),
           FoodItem_object.description = stored (food_kwargs.description k),
           FoodItem_object.energy_kj = stored (food_kwargs.energy_kj k),
           FoodItem_object.energy_kcal = stored (food_kwargs.energy_kcal k),
           FoodItem_object.fat = stored (food_kwargs.fat k),
           FoodItem_object.saturated_fat = stored (food_kwargs.saturated_fat k),
           FoodItem_object.carbohydrates = stored (food_kwargs.carbohydrates k),
           FoodItem_object.sugars = stored (food_kwargs.sugars k),
           FoodItem_object.fiber = stored (food_kwargs.fiber k),
           FoodItem_object.protein = stored (food_kwargs.protein k),
           FoodItem_object.salt = stored (food_kwargs.salt k),
           FoodItem_object.sodium = stored (food_kwargs.sodium k),
           FoodItem_object.nutri_score = stored (food_kwargs.nutri_score k),
           FoodItem_object.health_assessment = stored (food_kwargs.health_assessment k),
           FoodItem_object.ingredients = stored (food_kwargs.ingredients k),
           FoodItem_object.allergens = stored (food_kwargs.allergens k),
           FoodItem_object.categories = stored (food_kwargs.categories k),
           FoodItem_object.created_at = created_at',
           FoodItem_object.updated_at = updated_at'\<rparr>,
          c2))"

record Barcode_kwargs =
  id :: "int arg"
  code :: "string arg"
  barcode_type :: "string arg"
  food_item_id :: "int arg"
  created_at :: "datetime arg"

record Barcode =
  id :: "int option"
  code :: string
  barcode_type :: string
  food_item_id :: int
  created_at :: datetime


record ScanHistory_kwargs =
  id :: "int arg"
  food_item_id :: "int arg"
  barcode_scanned :: "string arg"
  scan_timestamp :: "datetime arg"
  user_agent :: "string arg"
  ip_address :: "string arg"

record ScanHistory =
  id :: "int option"
  food_item_id :: int
  barcode_scanned :: string
  scan_timestamp :: datetime
  user_agent :: "string option"
  ip_address :: "string option"


text \<open>
  \<^verbatim>\<open>Dict[str, Any]\<close> is a map from strings to values of a type \<open>'any\<close> that is left
  open.
\<close>

record 'any NutritionProfile_kwargs =
  id :: "int arg"
  name :: "string arg"
  description :: "string arg"
  max_fat_per_100g :: "Decimal arg"
  max_saturated_fat_per_100g :: "Decimal arg"
  max_sugars_per_100g :: "Decimal arg"
  max_salt_per_100g :: "Decimal arg"
  min_fiber_per_100g :: "Decimal arg"
  min_protein_per_100g :: "Decimal arg"
  nutri_score_thresholds :: "(string \<rightharpoonup> 'any) arg"
  created_at :: "datetime arg"
  updated_at :: "datetime arg"

record 'any NutritionProfile =
  id :: "int option"
  name :: string
  description :: "string option"
  max_fat_per_100g :: "Decimal option"
  max_saturated_fat_per_100g :: "Decimal option"
  max_sugars_per_100g :: "Decimal option"
  max_salt_per_100g :: "Decimal option"
  min_fiber_per_100g :: "Decimal option"
  min_protein_per_100g :: "Decimal option"
  nutri_score_thresholds :: "(string \<rightharpoonup> 'any) option"
  created_at :: datetime
  updated_at :: datetime

definition validate_NutritionProfile ::
  "clock \<Rightarrow> 'any NutritionProfile_kwargs \<Rightarrow> (errors + 'any NutritionProfile) \<times> clock" where
  "validate_NutritionProfile c k =
     (let id' = optional plain_field (NutritionProfile_kwargs.id k);
          name' = required String_type (str_field (Some 100)) (NutritionProfile_kwargs.name k);
          description' = optional (str_field (Some 500)) (NutritionProfile_kwargs.description k);
          max_fat_per_100g' = optional decimal_field (NutritionProfile_kwargs.max_fat_per_100g k);
          max_saturated_fat_per_100g' =
            optional decimal_field (NutritionProfile_kwargs.max_saturated_fat_per_100g k);
          max_sugars_per_100g' =
            optional decimal_field (NutritionProfile_kwargs.max_sugars_per_100g k);
          max_salt_per_100g' = optional decimal_field (NutritionProfile_kwargs.max_salt_per_100g k);
          min_fiber_per_100g' =
            optional decimal_field (NutritionProfile_kwargs.min_fiber_per_100g k);
          min_protein_per_100g' =
            optional decimal_field (NutritionProfile_kwargs.min_protein_per_100g k);
          nutri_score_thresholds' =
            optional plain_field (NutritionProfile_kwargs.nutri_score_thresholds k);
          (created_at', c1) = utcnow_default c (NutritionProfile_kwargs.created_at k);
          (updated_at', c2) = utcnow_default c1 (NutritionProfile_kwargs.updated_at k);
          es = err ''id'' id' @ err ''name'' name' @ err ''description'' description'
             @ err ''max_fat_per_100g'' max_fat_per_100g'
             @ err ''max_saturated_fat_per_100g'' max_saturated_fat_per_100g'
             @ err ''max_sugars_per_100g'' max_sugars_per_100g'
             @ err ''max_salt_per_100g'' max_salt_per_100g'
             @ err ''min_fiber_per_100g'' min_fiber_per_100g'
             @ err ''min_protein_per_100g'' min_protein_per_100g'
             @ err ''nutri_score_thresholds'' nutri_score_thresholds'
             @ err ''created_at'' created_at' @ err ''updated_at'' updated_at'
      in (if es = [] then
            Inr \<lparr>NutritionProfile.id = projr id', name = projr name',
                 description = projr description',
                 max_fat_per_100g = projr max_fat_per_100g',
                 max_saturated_fat_per_100g = projr max_saturated_fat_per_100g',
                 max_sugars_per_100g = projr max_sugars_per_100g',
                 max_salt_per_100g = projr max_salt_per_100g',
                 min_fiber_per_100g = projr min_fiber_per_100g',
                 min_protein_per_100g = projr min_protein_per_100g',
                 nutri_score_thresholds = projr nutri_score_thresholds',
                 created_at = projr created_at', updated_at = projr updated_at'\<rparr>
          else Inl es, c2))"

section \<open>The scan result\<close>

record 'any ScanResult_kwargs =
  barcode :: "string arg"
  found :: "bool arg"
  food_item :: "(string \<rightharpoonup> 'any) arg"
  nutri_score :: "string arg"
  health_assessment :: "string arg"
  scan_timestamp :: "datetime arg"

record 'any ScanResult =
  barcode :: string
  found :: bool
  food_item :: "(string \<rightharpoonup> 'any) option"
  nutri_score :: "NutriScore option"
  health_assessment :: "HealthAssessment option"
  scan_timestamp :: datetime

definition validate_ScanResult ::
  "clock \<Rightarrow> 'any ScanResult_kwargs \<Rightarrow> (errors + 'any ScanResult) \<times> clock" where
  "validate_ScanResult c k =
     (let barcode' = required String_type (str_field None) (ScanResult_kwargs.barcode k);
          found' = required Bool_type plain_field (ScanResult_kwargs.found k);
          food_item' = optional plain_field (ScanResult_kwargs.food_item k);
          nutri_score' = optional NutriScore_field (ScanResult_kwargs.nutri_score k);
          health_assessment' =
            optional HealthAssessment_field (ScanResult_kwargs.health_assessment k);
          (scan_timestamp', c1) = utcnow_default c (ScanResult_kwargs.scan_timestamp k);
          es = err ''barcode'' barcode' @ err ''found'' found' @ err ''food_item'' food_item'
             @ err ''nutri_score'' nutri_score' @ err ''health_assessment'' health_assessment'
             @ err ''scan_timestamp'' scan_timestamp'
      in (if es = [] then
            Inr \<lparr>ScanResult.barcode = projr barcode', found = projr found',
                 food_item = projr food_item', nutri_score = projr nutri_score',
                 health_assessment = projr health_assessment',
                 scan_timestamp = projr scan_timestamp'\<rparr>
          else Inl es, c1))"

text \<open>The keyword arguments of a call that passes nothing.\<close>

definition no_FoodItem_kwargs :: FoodItem_kwargs where
  "no_FoodItem_kwargs =
     \<lparr>food_kwargs.name = Omitted, food_kwargs.brand = Omitted,
      food_kwargs.description = Omitted, food_kwargs.energy_kj = Omitted,
      food_kwargs.energy_kcal = Omitted, food_kwargs.fat = Omitted,
      food_kwargs.saturated_fat = Omitted, food_kwargs.carbohydrates = Omitted,
      food_kwargs.sugars = Omitted, food_kwargs.fiber = Omitted,
      food_kwargs.protein = Omitted, food_kwargs.salt = Omitted,
      food_kwargs.sodium = Omitted, food_kwargs.nutri_score = Omitted,
      food_kwargs.health_assessment = Omitted, food_kwargs.ingredients = Omitted,
      food_kwargs.allergens = Omitted, food_kwargs.categories = Omitted,
      FoodItem_kwargs.id = Omitted, FoodItem_kwargs.created_at = Omitted,
      FoodItem_kwargs.updated_at = Omitted\<rparr>"

section \<open>The store\<close>

text \<open>
  Modelled from the spec: the persistence component (the tables, their inserts and reads,
  the unique constraint on \<^verbatim>\<open>Barcode.code\<close> and the two foreign keys to
  \<^verbatim>\<open>food_items.id\<close>) is not part of the source, which only declares the constraints
  (\<^verbatim>\<open>unique=True\<close>, \<^verbatim>\<open>foreign_key="food_items.id"\<close>). The spec names two errors of the
  persistence layer, fixes no order between their checks and wants every failure reported,
  so an insert reports each constraint the row violates and writes nothing when there is
  one.
\<close>

datatype persistence_error = UniquenessViolation | ReferentialIntegrityError

record store =
  food_items :: "FoodItem list"
  barcodes :: "Barcode list"
  scan_history :: "ScanHistory list"

definition empty_store :: store where
  "empty_store = \<lparr>food_items = [], barcodes = [], scan_history = []\<rparr>"

text \<open>Modelled from the spec: the identity of a new row, above every id of its table.\<close>

definition new_id :: "int option list \<Rightarrow> int" where
  "new_id ids = fold max (List.map_filter (\<lambda>i. i) ids) 0 + 1"

text \<open>Modelled from the spec: reading a FoodItem by its id.\<close>

definition get_food_item :: "store \<Rightarrow> int \<Rightarrow> FoodItem option" where
  "get_food_item s i = find (\<lambda>f. FoodItem.id f = Some i) (food_items s)"

text \<open>Modelled from the spec: writing a FoodItem row.\<close>

definition insert_food_item :: "store \<Rightarrow> FoodItem \<Rightarrow> FoodItem \<times> store" where
  "insert_food_item s f =
     (let f' = f\<lparr>FoodItem.id := Some (new_id (map FoodItem.id (food_items s)))\<rparr>
      in (f', s\<lparr>food_items := food_items s @ [f']\<rparr>))"

text \<open>
  Modelled from the spec: writing a Barcode row. A \<^verbatim>\<open>food_item_id\<close> that no FoodItem
  has is a ReferentialIntegrityError, a \<^verbatim>\<open>code\<close> that a stored Barcode has is a
  UniquenessViolation.
\<close>

definition insert_barcode :: "store \<Rightarrow> Barcode \<Rightarrow> (persistence_error list + Barcode) \<times> store" where
  "insert_barcode s b =
     (let es = (if get_food_item s (Barcode.food_item_id b) = None
                then [ReferentialIntegrityError] else [])
             @ (if Barcode.code b \<in> set (map Barcode.code (barcodes s))
                then [UniquenessViolation] else [])
      in if es = [] then
           (let b' = b\<lparr>Barcode.id := Some (new_id (map Barcode.id (barcodes s)))\<rparr>
            in (Inr b', s\<lparr>barcodes := barcodes s @ [b']\<rparr>))
         else (Inl es, s))"

text \<open>Modelled from the spec: appending a ScanHistory row.\<close>

definition insert_scan_history ::
  "store \<Rightarrow> ScanHistory \<Rightarrow> (persistence_error list + ScanHistory) \<times> store" where
  "insert_scan_history s h =
     (let es = (if get_food_item s (ScanHistory.food_item_id h) = None
                then [ReferentialIntegrityError] else [])
      in if es = [] then
           (let h' = h\<lparr>ScanHistory.id := Some (new_id (map ScanHistory.id (scan_history s)))\<rparr>
            in (Inr h', s\<lparr>scan_history := scan_history s @ [h']\<rparr>))
         else (Inl es, s))"

text \<open>
  Modelled from the spec: the states of the store, from the empty one by the three
  inserts (the spec shows no delete and no update of a key).
\<close>

inductive reachable :: "store \<Rightarrow> bool" where
  reachable_empty: "reachable empty_store"
| reachable_food_item: "reachable s \<Longrightarrow> reachable (snd (insert_food_item s f))"
| reachable_barcode: "reachable s \<Longrightarrow> reachable (snd (insert_barcode s b))"
| reachable_scan_history: "reachable s \<Longrightarrow> reachable (snd (insert_scan_history s h))"

text \<open>
  Modelled from the spec: persisting a FoodItemCreate. Its fields become the keyword
  arguments of a FoodItem (an absent value is \<^verbatim>\<open>None\<close>, an enumeration member is its
  string), the FoodItem is validated with its id and timestamps omitted, and the row is
  written.
\<close>

fun dump :: "'a option \<Rightarrow> 'a arg" where
  "dump None = PyNone"
| "dump (Some v) = Given v"

definition FoodItem_kwargs_of :: "FoodItemCreate \<Rightarrow> FoodItem_kwargs" where
  "FoodItem_kwargs_of x =
     \<lparr>food_kwargs.name = Given (FoodItemCreate.name x),
      food_kwargs.brand = dump (FoodItemCreate.brand x),
      food_kwargs.description = dump (FoodItemCreate.description x),
      food_kwargs.energy_kj = dump (FoodItemCreate.energy_kj x),
      food_kwargs.energy_kcal = dump (FoodItemCreate.energy_kcal x),
      food_kwargs.fat = dump (FoodItemCreate.fat x),
      food_kwargs.saturated_fat = dump (FoodItemCreate.saturated_fat x),
      food_kwargs.carbohydrates = dump (FoodItemCreate.carbohydrates x),
      food_kwargs.sugars = dump (FoodItemCreate.sugars x),
      food_kwargs.fiber = dump (FoodItemCreate.fiber x),
      food_kwargs.protein = dump (FoodItemCreate.protein x),
      food_kwargs.salt = dump (FoodItemCreate.salt x),
      food_kwargs.sodium = dump (FoodItemCreate.sodium x),
      food_kwargs.nutri_score = dump (map_option NutriScore_value (FoodItemCreate.nutri_score x)),
      food_kwargs.health_assessment =
        dump (map_option HealthAssessment_value (FoodItemCreate.health_assessment x)),
      food_kwargs.ingredients = dump (FoodItemCreate.ingredients x),
      food_kwargs.allergens = dump (FoodItemCreate.allergens x),
      food_kwargs.categories = dump (FoodItemCreate.categories x),
      FoodItem_kwargs.id = Omitted,
      FoodItem_kwargs.created_at = Omitted,
      FoodItem_kwargs.updated_at = Omitted\<rparr>"

definition create_food_item ::
  "clock \<Rightarrow> store \<Rightarrow> FoodItemCreate \<Rightarrow> ((errors + FoodItem) \<times> store) \<times> clock" where
  "create_food_item c s x =
     (case validate_FoodItem c (FoodItem_kwargs_of x) of
        (Inl es, c') \<Rightarrow> ((Inl es, s), c')
      | (Inr f, c') \<Rightarrow> (case insert_food_item s f of (f', s') \<Rightarrow> ((Inr f', s'), c')))"

text \<open>
  Modelled from the spec: a scan looks the barcode up among the stored Barcodes and
  answers with a ScanResult. What the embedded food-item snapshot holds is not said, so
  it is the parameter \<open>snapshot\<close>.
\<close>

definition scan ::
  "(FoodItem \<Rightarrow> string \<rightharpoonup> 'any) \<Rightarrow> clock \<Rightarrow> store \<Rightarrow> string
     \<Rightarrow> (errors + 'any ScanResult) \<times> clock" where
  "scan snapshot c s b =
     (case Option.bind (find (\<lambda>r. Barcode.code r = b) (barcodes s))
             (\<lambda>r. get_food_item s (Barcode.food_item_id r)) of
        None \<Rightarrow>
          validate_ScanResult c
            \<lparr>ScanResult_kwargs.barcode = Given b,
             ScanResult_kwargs.found = Given False,
             ScanResult_kwargs.food_item = Omitted,
             ScanResult_kwargs.nutri_score = Omitted,
             ScanResult_kwargs.health_assessment = Omitted,
             ScanResult_kwargs.scan_timestamp = Omitted\<rparr>
      | Some f \<Rightarrow>
          validate_ScanResult c
            \<lparr>ScanResult_kwargs.barcode = Given b,
             ScanResult_kwargs.found = Given True,
             ScanResult_kwargs.food_item = Given (snapshot f),
             ScanResult_kwargs.nutri_score =
               dump (map_option NutriScore_value (FoodItem.nutri_score f)),
             ScanResult_kwargs.health_assessment =
               dump (map_option HealthAssessment_value (FoodItem.health_assessment f)),
             ScanResult_kwargs.scan_timestamp = Omitted\<rparr>)"

section \<open>The nutrient and threshold fields\<close>

text \<open>
  The ten nutrient fields that FoodItem, FoodItemCreate and FoodItemUpdate declare, and the
  six threshold fields of NutritionProfile: the name of each field with the keyword
  argument it reads and the assignment to that keyword argument.
\<close>

definition nutrient_fields ::
  "(string \<times> ('z food_kwargs_scheme \<Rightarrow> Decimal arg)
      \<times> (Decimal arg \<Rightarrow> 'z food_kwargs_scheme \<Rightarrow> 'z food_kwargs_scheme)) list" where
  "nutrient_fields =
     [(''energy_kj'', food_kwargs.energy_kj, \<lambda>v k. k\<lparr>food_kwargs.energy_kj := v\<rparr>),
      (''energy_kcal'', food_kwargs.energy_kcal, \<lambda>v k. k\<lparr>food_kwargs.energy_kcal := v\<rparr>),
      (''fat'', food_kwargs.fat, \<lambda>v k. k\<lparr>food_kwargs.fat := v\<rparr>),
      (''saturated_fat'', food_kwargs.saturated_fat, \<lambda>v k. k\<lparr>food_kwargs.saturated_fat := v\<rparr>),
      (''carbohydrates'', food_kwargs.carbohydrates, \<lambda>v k. k\<lparr>food_kwargs.carbohydrates := v\<rparr>),
      (''sugars'', food_kwargs.sugars, \<lambda>v k. k\<lparr>food_kwargs.sugars := v\<rparr>),
      (''fiber'', food_kwargs.fiber, \<lambda>v k. k\<lparr>food_kwargs.fiber := v\<rparr>),
      (''protein'', food_kwargs.protein, \<lambda>v k. k\<lparr>food_kwargs.protein := v\<rparr>),
      (''salt'', food_kwargs.salt, \<lambda>v k. k\<lparr>food_kwargs.salt := v\<rparr>),
      (''sodium'', food_kwargs.sodium, \<lambda>v k. k\<lparr>food_kwargs.sodium := v\<rparr>)]"

definition threshold_fields ::
  "(string \<times> ('any NutritionProfile_kwargs \<Rightarrow> Decimal arg)
      \<times> (Decimal arg \<Rightarrow> 'any NutritionProfile_kwargs \<Rightarrow> 'any NutritionProfile_kwargs)) list" where
  "threshold_fields =
     [(''max_fat_per_100g'', NutritionProfile_kwargs.max_fat_per_100g,
       \<lambda>v k. k\<lparr>NutritionProfile_kwargs.max_fat_per_100g := v\<rparr>),
      (''max_saturated_fat_per_100g'', NutritionProfile_kwargs.max_saturated_fat_per_100g,
       \<lambda>v k. k\<lparr>NutritionProfile_kwargs.max_saturated_fat_per_100g := v\<rparr>),
      (''max_sugars_per_100g'', NutritionProfile_kwargs.max_sugars_per_100g,
       \<lambda>v k. k\<lparr>NutritionProfile_kwargs.max_sugars_per_100g := v\<rparr>),
      (''max_salt_per_100g'', NutritionProfile_kwargs.max_salt_per_100g,
       \<lambda>v k. k\<lparr>NutritionProfile_kwargs.max_salt_per_100g := v\<rparr>),
      (''min_fiber_per_100g'', NutritionProfile_kwargs.min_fiber_per_100g,
       \<lambda>v k. k\<lparr>NutritionProfile_kwargs.min_fiber_per_100g := v\<rparr>),
      (''min_protein_per_100g'', NutritionProfile_kwargs.min_protein_per_100g,
       \<lambda>v k. k\<lparr>NutritionProfile_kwargs.min_protein_per_100g := v\<rparr>)]"

section \<open>Example rows\<close>

text \<open>Rows that the examples after the theorems insert into a store.\<close>

definition oat_flakes :: FoodItem where
  "oat_flakes =
     \<lparr>FoodItem.id = None, FoodItem.name = ''Oat flakes'', FoodItem.brand = None,
      FoodItem.description = None, FoodItem.energy_kj = Some (Finite False 1540 0),
      FoodItem.energy_kcal = None, FoodItem.fat = Some (Finite False 70 (-1)),
      FoodItem.saturated_fat = None, FoodItem.carbohydrates = None,
      FoodItem.sugars = Some (Finite False 12 (-1)), FoodItem.fiber = None,
      FoodItem.protein = None, FoodItem.salt = None, FoodItem.sodium = None,
      FoodItem.nutri_score = Some A, FoodItem.health_assessment = Some GOOD,
      FoodItem.ingredients = Some [''oats''], FoodItem.allergens = None,
      FoodItem.categories = None, FoodItem.created_at = Datetime 0,
      FoodItem.updated_at = Datetime 0\<rparr>"

definition oat_barcode :: Barcode where
  "oat_barcode =
     \<lparr>Barcode.id = None, Barcode.code = ''4006040000112'', Barcode.barcode_type = ''EAN13'',
      Barcode.food_item_id = 1, Barcode.created_at = Datetime 1\<rparr>"

definition oat_scan :: ScanHistory where
  "oat_scan =
     \<lparr>ScanHistory.id = None, ScanHistory.food_item_id = 1,
      ScanHistory.barcode_scanned = ''4006040000112'',
      ScanHistory.scan_timestamp = Datetime 2, ScanHistory.user_agent = None,
      ScanHistory.ip_address = None\<rparr>"

definition oat_store :: store where
  "oat_store =
     snd (insert_scan_history
       (snd (insert_barcode (snd (insert_food_item empty_store oat_flakes)) oat_barcode))
       oat_scan)"

text \<open>
  A call of FoodItemCreate that passes every field (the fat is \<^verbatim>\<open>Decimal('1.50')\<close>), and
  the FoodItemCreate it builds.
\<close>

definition muesli_kwargs :: food_kwargs where
  "muesli_kwargs =
     \<lparr>food_kwargs.name = Given ''Muesli'', food_kwargs.brand = Given ''Mill'',
      food_kwargs.description = Given ''Rolled oats with nuts'',
      food_kwargs.energy_kj = Given (Finite False 15400 (-1)),
      food_kwargs.energy_kcal = Given (Finite False 368 0),
      food_kwargs.fat = Given (Finite False 150 (-2)),
      food_kwargs.saturated_fat = Given (Finite False 3 (-1)),
      food_kwargs.carbohydrates = Given (Finite False 6120 (-2)),
      food_kwargs.sugars = Given (Finite False 1 0),
      food_kwargs.fiber = Given (Finite False 10 0),
      food_kwargs.protein = Given (Finite False 125 (-1)),
      food_kwargs.salt = Given (Finite False 2 (-2)),
      food_kwargs.sodium = Given (Finite False 8 (-3)),
      food_kwargs.nutri_score = Given ''A'',
      food_kwargs.health_assessment = Given ''Good for health'',
      food_kwargs.ingredients = Given [''oats'', ''hazelnuts''],
      food_kwargs.allergens = Given [''nuts''], food_kwargs.categories = Given [''cereals'']\<rparr>"

definition muesli :: FoodItemCreate where
  "muesli =
     \<lparr>FoodItemCreate.name = ''Muesli'', FoodItemCreate.brand = Some ''Mill'',
      FoodItemCreate.description = Some ''Rolled oats with nuts'',
      FoodItemCreate.energy_kj = Some (Finite False 15400 (-1)),
      FoodItemCreate.energy_kcal = Some (Finite False 368 0),
      FoodItemCreate.fat = Some (Finite False 150 (-2)),
      FoodItemCreate.saturated_fat = Some (Finite False 3 (-1)),
      FoodItemCreate.carbohydrates = Some (Finite False 6120 (-2)),
      FoodItemCreate.sugars = Some (Finite False 1 0),
      FoodItemCreate.fiber = Some (Finite False 10 0),
      FoodItemCreate.protein = Some (Finite False 125 (-1)),
      FoodItemCreate.salt = Some (Finite False 2 (-2)),
      FoodItemCreate.sodium = Some (Finite False 8 (-3)),
      FoodItemCreate.nutri_score = Some A, FoodItemCreate.health_assessment = Some GOOD,
      FoodItemCreate.ingredients = Some [''oats'', ''hazelnuts''],
      FoodItemCreate.allergens = Some [''nuts''],
      FoodItemCreate.categories = Some [''cereals'']\<rparr>"

text \<open>A call of NutritionProfile that passes a name and one threshold.\<close>

definition general_adult_kwargs :: "'any NutritionProfile_kwargs" where
  "general_adult_kwargs =
     \<lparr>NutritionProfile_kwargs.id = Omitted,
      NutritionProfile_kwargs.name = Given ''General Adult'',
      NutritionProfile_kwargs.description = Omitted,
      NutritionProfile_kwargs.max_fat_per_100g = Omitted,
      NutritionProfile_kwargs.max_saturated_fat_per_100g = Omitted,
      NutritionProfile_kwargs.max_sugars_per_100g = Given (Finite False 200 (-1)),
      NutritionProfile_kwargs.max_salt_per_100g = Omitted,
      NutritionProfile_kwargs.min_fiber_per_100g = Omitted,
      NutritionProfile_kwargs.min_protein_per_100g = Omitted,
      NutritionProfile_kwargs.nutri_score_thresholds = Omitted,
      NutritionProfile_kwargs.created_at = Omitted,
      NutritionProfile_kwargs.updated_at = Omitted\<rparr>"

section \<open>Properties\<close>

lemma filter_err:
  "filter (\<lambda>fe. fst fe = f) (err g r) = (if g = f then err g r else [])"
  by (cases r) simp_all

lemma errors_at_if:
  "errors_at f (if es = [] then Inr r else Inl es) = map snd (filter (\<lambda>fe. fst fe = f) es)"
  by simp

subsection \<open>The length of a name\<close>

lemma FoodItemCreate_errors_at_name:
  "errors_at ''name'' (validate_FoodItemCreate k)
     = map snd (err ''name'' (required String_type (str_field (Some 255)) (food_kwargs.name k)))"
  unfolding validate_FoodItemCreate_def Let_def errors_at_if
  by (simp add: filter_err)

lemma FoodItem_errors_at_name:
  "errors_at ''name'' (fst (validate_FoodItem c k))
     = map snd (err ''name'' (required String_type (str_field (Some 255)) (food_kwargs.name k)))"
  unfolding validate_FoodItem_def Let_def
  by (simp add: filter_err split: prod.splits)

lemma FoodItemCreate_only_name:
  "validate_FoodItemCreate (no_kwargs\<lparr>food_kwargs.name := Given s\<rparr>) =
     (if 255 < length s then Inl [(''name'', String_too_long 255)]
      else Inr \<lparr>FoodItemCreate.name = s, FoodItemCreate.brand = None,
        FoodItemCreate.description = None, FoodItemCreate.energy_kj = None,
        FoodItemCreate.energy_kcal = None, FoodItemCreate.fat = None,
        FoodItemCreate.saturated_fat = None, FoodItemCreate.carbohydrates = None,
        FoodItemCreate.sugars = None, FoodItemCreate.fiber = None,
        FoodItemCreate.protein = None, FoodItemCreate.salt = None,
        FoodItemCreate.sodium = None, FoodItemCreate.nutri_score = None,
        FoodItemCreate.health_assessment = None, FoodItemCreate.ingredients = None,
        FoodItemCreate.allergens = None, FoodItemCreate.categories = None\<rparr>)"
  by (simp add: validate_FoodItemCreate_def no_kwargs_def)

lemma FoodItem_only_name:
  "fst (validate_FoodItem c (no_FoodItem_kwargs\<lparr>food_kwargs.name := Given s\<rparr>)) =
     (if 255 < length s then Inl [(''name'', String_too_long 255)]
      else Inr \<lparr>FoodItem.id = None, FoodItem.name = s, FoodItem.brand = None,
        FoodItem.description = None, FoodItem.energy_kj = None,
        FoodItem.energy_kcal = None, FoodItem.fat = None,
        FoodItem.saturated_fat = None, FoodItem.carbohydrates = None,
        FoodItem.sugars = None, FoodItem.fiber = None,
        FoodItem.protein = None, FoodItem.salt = None,
        FoodItem.sodium = None, FoodItem.nutri_score = None,
        FoodItem.health_assessment = None, FoodItem.ingredients = None,
        FoodItem.allergens = None, FoodItem.categories = None,
        FoodItem.created_at = readings c (taken c),
        FoodItem.updated_at = readings c (Suc (taken c))\<rparr>)"
  by (simp add: validate_FoodItem_def no_FoodItem_kwargs_def utcnow_def)

text \<open>
  C5: the validation of a FoodItemCreate, and of a FoodItem, reports an error for the
  field \<open>name\<close> exactly when the name is longer than 255 characters, and the error is
  the too-long error with the bound 255 under the field's name; a call that passes
  nothing but the name is accepted if and only if the name has at most 255 characters.
\<close>

theorem name_max_length:
  assumes "food_kwargs.name k = Given s" and "food_kwargs.name k' = Given s"
  shows "errors_at ''name'' (validate_FoodItemCreate k)
           = (if 255 < length s then [String_too_long 255] else [])
       \<and> errors_at ''name'' (fst (validate_FoodItem c k'))
           = (if 255 < length s then [String_too_long 255] else [])
       \<and> ((\<exists>x. validate_FoodItemCreate k = Inr x) \<longrightarrow> length s \<le> 255)
       \<and> ((\<exists>x. fst (validate_FoodItem c k') = Inr x) \<longrightarrow> length s \<le> 255)
       \<and> ((\<exists>x. validate_FoodItemCreate (no_kwargs\<lparr>food_kwargs.name := Given s\<rparr>) = Inr x)
            \<longleftrightarrow> length s \<le> 255)
       \<and> ((\<exists>x. fst (validate_FoodItem c (no_FoodItem_kwargs\<lparr>food_kwargs.name := Given s\<rparr>)) = Inr x)
            \<longleftrightarrow> length s \<le> 255)"
proof -
  have a: "errors_at ''name'' (validate_FoodItemCreate k)
           = (if 255 < length s then [String_too_long 255] else [])"
    using assms(1) by (simp add: FoodItemCreate_errors_at_name)
  have b: "errors_at ''name'' (fst (validate_FoodItem c k'))
           = (if 255 < length s then [String_too_long 255] else [])"
    using assms(2) by (simp add: FoodItem_errors_at_name)
  have c: "(\<exists>x. validate_FoodItemCreate k = Inr x) \<longrightarrow> length s \<le> 255"
    using a by (auto split: if_splits)
  have d: "(\<exists>x. fst (validate_FoodItem c k') = Inr x) \<longrightarrow> length s \<le> 255"
    using b by (auto split: if_splits)
  have e: "(\<exists>x. validate_FoodItemCreate (no_kwargs\<lparr>food_kwargs.name := Given s\<rparr>) = Inr x)
            \<longleftrightarrow> length s \<le> 255"
    by (simp add: FoodItemCreate_only_name)
  have f: "(\<exists>x. fst (validate_FoodItem c (no_FoodItem_kwargs\<lparr>food_kwargs.name := Given s\<rparr>)) = Inr x)
            \<longleftrightarrow> length s \<le> 255"
    by (simp add: FoodItem_only_name)
  from a b c d e f show ?thesis by blast
qed

theorem name_max_length_witness:
  "food_kwargs.name (no_kwargs\<lparr>food_kwargs.name := Given (replicate 255 CHR ''a'')\<rparr>)
     = Given (replicate 255 CHR ''a'')
   \<and> (\<exists>x. validate_FoodItemCreate
            (no_kwargs\<lparr>food_kwargs.name := Given (replicate 255 CHR ''a'')\<rparr>) = Inr x)
   \<and> (\<exists>x. fst (validate_FoodItem \<lparr>readings = \<lambda>n. Datetime (int n), taken = 0\<rparr>
            (no_FoodItem_kwargs\<lparr>food_kwargs.name := Given (replicate 255 CHR ''a'')\<rparr>)) = Inr x)
   \<and> errors_at ''name'' (validate_FoodItemCreate
            (no_kwargs\<lparr>food_kwargs.name := Given (replicate 256 CHR ''a'')\<rparr>))
       = [String_too_long 255]
   \<and> errors_at ''name'' (fst (validate_FoodItem \<lparr>readings = \<lambda>n. Datetime (int n), taken = 0\<rparr>
            (no_FoodItem_kwargs\<lparr>food_kwargs.name := Given (replicate 256 CHR ''a'')\<rparr>)))
       = [String_too_long 255]"
  using name_max_length [of "no_kwargs\<lparr>food_kwargs.name := Given (replicate 255 CHR ''a'')\<rparr>"
      "replicate 255 CHR ''a''"
      "no_FoodItem_kwargs\<lparr>food_kwargs.name := Given (replicate 255 CHR ''a'')\<rparr>"
      "\<lparr>readings = \<lambda>n. Datetime (int n), taken = 0\<rparr>"]
    name_max_length [of "no_kwargs\<lparr>food_kwargs.name := Given (replicate 256 CHR ''a'')\<rparr>"
      "replicate 256 CHR ''a''"
      "no_FoodItem_kwargs\<lparr>food_kwargs.name := Given (replicate 256 CHR ''a'')\<rparr>"
      "\<lparr>readings = \<lambda>n. Datetime (int n), taken = 0\<rparr>"]
  by simp

subsection \<open>Required and optional fields\<close>

lemma FoodItemUpdate_nothing:
  "validate_FoodItemUpdate no_kwargs =
     Inr \<lparr>FoodItemUpdate.name = None, FoodItemUpdate.brand = None,
        FoodItemUpdate.description = None, FoodItemUpdate.energy_kj = None,
        FoodItemUpdate.energy_kcal = None, FoodItemUpdate.fat = None,
        FoodItemUpdate.saturated_fat = None, FoodItemUpdate.carbohydrates = None,
        FoodItemUpdate.sugars = None, FoodItemUpdate.fiber = None,
        FoodItemUpdate.protein = None, FoodItemUpdate.salt = None,
        FoodItemUpdate.sodium = None, FoodItemUpdate.nutri_score = None,
        FoodItemUpdate.health_assessment = None, FoodItemUpdate.ingredients = None,
        FoodItemUpdate.allergens = None, FoodItemUpdate.categories = None\<rparr>"
  by (simp add: validate_FoodItemUpdate_def no_kwargs_def)

lemma FoodItemCreate_no_name:
  assumes "food_kwargs.name k = Omitted"
  shows "errors_at ''name'' (validate_FoodItemCreate k) = [Missing]"
  using assms by (simp add: FoodItemCreate_errors_at_name)

lemma errors_at_Cons_not_Inr: "errors_at f v = e # es \<Longrightarrow> v \<noteq> Inr x"
  by (cases v) simp_all


lemma FoodItemCreate_no_name_rejected:
  assumes "food_kwargs.name k = Omitted"
  shows "validate_FoodItemCreate k \<noteq> Inr x"
proof
  assume "validate_FoodItemCreate k = Inr x"
  then have "errors_at ''name'' (validate_FoodItemCreate k) = []" by simp
  with FoodItemCreate_no_name [OF assms] show False by simp
qed

lemma FoodItemCreate_only_short_name:
  assumes "length s \<le> 255"
  shows "validate_FoodItemCreate (no_kwargs\<lparr>food_kwargs.name := Given s\<rparr>) =
          Inr \<lparr>FoodItemCreate.name = s, FoodItemCreate.brand = None,
            FoodItemCreate.description = None, FoodItemCreate.energy_kj = None,
            FoodItemCreate.energy_kcal = None, FoodItemCreate.fat = None,
            FoodItemCreate.saturated_fat = None, FoodItemCreate.carbohydrates = None,
            FoodItemCreate.sugars = None, FoodItemCreate.fiber = None,
            FoodItemCreate.protein = None, FoodItemCreate.salt = None,
            FoodItemCreate.sodium = None, FoodItemCreate.nutri_score = None,
            FoodItemCreate.health_assessment = None, FoodItemCreate.ingredients = None,
            FoodItemCreate.allergens = None, FoodItemCreate.categories = None\<rparr>"
proof -
  from assms have "\<not> 255 < length s" by simp
  then show ?thesis by (simp only: FoodItemCreate_only_name if_False)
qed

text \<open>
  C6: a FoodItemCreate call that omits the name is rejected with the missing-field error
  under \<open>name\<close>; a call that passes a name of at most 255 characters and nothing else is
  accepted, every other field being \<open>None\<close>; a FoodItemUpdate call that passes nothing
  is accepted, every field, the name included, being \<open>None\<close>.
\<close>

theorem name_required_on_create_only:
  "(food_kwargs.name k = Omitted \<longrightarrow>
      errors_at ''name'' (validate_FoodItemCreate k) = [Missing]
      \<and> (\<forall>x. validate_FoodItemCreate k \<noteq> Inr x))
   \<and> (length s \<le> 255 \<longrightarrow>
        validate_FoodItemCreate (no_kwargs\<lparr>food_kwargs.name := Given s\<rparr>) =
          Inr \<lparr>FoodItemCreate.name = s, FoodItemCreate.brand = None,
            FoodItemCreate.description = None, FoodItemCreate.energy_kj = None,
            FoodItemCreate.energy_kcal = None, FoodItemCreate.fat = None,
            FoodItemCreate.saturated_fat = None, FoodItemCreate.carbohydrates = None,
            FoodItemCreate.sugars = None, FoodItemCreate.fiber = None,
            FoodItemCreate.protein = None, FoodItemCreate.salt = None,
            FoodItemCreate.sodium = None, FoodItemCreate.nutri_score = None,
            FoodItemCreate.health_assessment = None, FoodItemCreate.ingredients = None,
            FoodItemCreate.allergens = None, FoodItemCreate.categories = None\<rparr>)
   \<and> validate_FoodItemUpdate no_kwargs =
        Inr \<lparr>FoodItemUpdate.name = None, FoodItemUpdate.brand = None,
          FoodItemUpdate.description = None, FoodItemUpdate.energy_kj = None,
          FoodItemUpdate.energy_kcal = None, FoodItemUpdate.fat = None,
          FoodItemUpdate.saturated_fat = None, FoodItemUpdate.carbohydrates = None,
          FoodItemUpdate.sugars = None, FoodItemUpdate.fiber = None,
          FoodItemUpdate.protein = None, FoodItemUpdate.salt = None,
          FoodItemUpdate.sodium = None, FoodItemUpdate.nutri_score = None,
          FoodItemUpdate.health_assessment = None, FoodItemUpdate.ingredients = None,
          FoodItemUpdate.allergens = None, FoodItemUpdate.categories = None\<rparr>"
proof (intro conjI impI allI)
  assume "food_kwargs.name k = Omitted"
  then show "errors_at ''name'' (validate_FoodItemCreate k) = [Missing]"
    by (rule FoodItemCreate_no_name)
next
  fix x assume "food_kwargs.name k = Omitted"
  then show "validate_FoodItemCreate k \<noteq> Inr x"
    by (rule FoodItemCreate_no_name_rejected)
next
  assume "length s \<le> 255"
  then show "validate_FoodItemCreate (no_kwargs\<lparr>food_kwargs.name := Given s\<rparr>) =
          Inr \<lparr>FoodItemCreate.name = s, FoodItemCreate.brand = None,
            FoodItemCreate.description = None, FoodItemCreate.energy_kj = None,
            FoodItemCreate.energy_kcal = None, FoodItemCreate.fat = None,
            FoodItemCreate.saturated_fat = None, FoodItemCreate.carbohydrates = None,
            FoodItemCreate.sugars = None, FoodItemCreate.fiber = None,
            FoodItemCreate.protein = None, FoodItemCreate.salt = None,
            FoodItemCreate.sodium = None, FoodItemCreate.nutri_score = None,
            FoodItemCreate.health_assessment = None, FoodItemCreate.ingredients = None,
            FoodItemCreate.allergens = None, FoodItemCreate.categories = None\<rparr>"
    by (rule FoodItemCreate_only_short_name)
next
  show "validate_FoodItemUpdate no_kwargs =
        Inr \<lparr>FoodItemUpdate.name = None, FoodItemUpdate.brand = None,
          FoodItemUpdate.description = None, FoodItemUpdate.energy_kj = None,
          FoodItemUpdate.energy_kcal = None, FoodItemUpdate.fat = None,
          FoodItemUpdate.saturated_fat = None, FoodItemUpdate.carbohydrates = None,
          FoodItemUpdate.sugars = None, FoodItemUpdate.fiber = None,
          FoodItemUpdate.protein = None, FoodItemUpdate.salt = None,
          FoodItemUpdate.sodium = None, FoodItemUpdate.nutri_score = None,
          FoodItemUpdate.health_assessment = None, FoodItemUpdate.ingredients = None,
          FoodItemUpdate.allergens = None, FoodItemUpdate.categories = None\<rparr>"
    by (rule FoodItemUpdate_nothing)
qed

theorem name_required_on_create_only_witness:
  "food_kwargs.name no_kwargs = Omitted
   \<and> errors_at ''name'' (validate_FoodItemCreate no_kwargs) = [Missing]
   \<and> length ''Oat flakes'' \<le> 255
   \<and> (\<exists>x. validate_FoodItemCreate (no_kwargs\<lparr>food_kwargs.name := Given ''Oat flakes''\<rparr>) = Inr x)
   \<and> (\<exists>x. validate_FoodItemUpdate no_kwargs = Inr x)"
proof -
  have h1: "food_kwargs.name no_kwargs = Omitted" by (simp add: no_kwargs_def)
  have h2: "length ''Oat flakes'' \<le> 255" by simp
  note t = name_required_on_create_only [of no_kwargs "''Oat flakes''"]
  have a: "errors_at ''name'' (validate_FoodItemCreate no_kwargs) = [Missing]"
    by (rule t [THEN conjunct1, THEN mp, OF h1, THEN conjunct1])
  have b: "\<exists>x. validate_FoodItemCreate (no_kwargs\<lparr>food_kwargs.name := Given ''Oat flakes''\<rparr>) = Inr x"
    by (rule exI, rule t [THEN conjunct2, THEN conjunct1, THEN mp, OF h2])
  have c: "\<exists>x. validate_FoodItemUpdate no_kwargs = Inr x"
    by (rule exI, rule t [THEN conjunct2, THEN conjunct2])
  from h1 a h2 b c show ?thesis by (intro conjI)
qed

subsection \<open>Enumeration fields\<close>

lemma err_Nil_iff: "err f r = [] \<longleftrightarrow> (\<exists>v. r = Inr v)"
  by (cases r) simp_all

lemma NutriScore_field_cases:
  "NutriScore_field v =
     (if v = ''A'' then Inr A else if v = ''B'' then Inr B else if v = ''C'' then Inr C
      else if v = ''D'' then Inr D else if v = ''E'' then Inr E else Inl Enum)"
  by (simp add: NutriScore_members_def)

lemma HealthAssessment_field_cases:
  "HealthAssessment_field v =
     (if v = ''Good for health'' then Inr GOOD else if v = ''Moderate'' then Inr MODERATE
      else if v = ''Not recommended'' then Inr NOT_RECOMMENDED else Inl Enum)"
  by (simp add: HealthAssessment_members_def)

declare NutriScore_field.simps [simp del] HealthAssessment_field.simps [simp del]

lemma NutriScore_field_Inr: "NutriScore_field v = Inr m \<longleftrightarrow> NutriScore_value m = v"
  by (cases m) (auto simp: NutriScore_field_cases split: if_splits)

lemma HealthAssessment_field_Inr:
  "HealthAssessment_field v = Inr m \<longleftrightarrow> HealthAssessment_value m = v"
  by (cases m) (auto simp: HealthAssessment_field_cases split: if_splits)

lemma NutriScore_value_range: "NutriScore_value m \<in> {''A'', ''B'', ''C'', ''D'', ''E''}"
  by (cases m) simp_all

lemma HealthAssessment_value_range:
  "HealthAssessment_value m \<in> {''Good for health'', ''Moderate'', ''Not recommended''}"
  by (cases m) simp_all

lemma err_NutriScore_given:
  "map snd (err f (optional NutriScore_field (Given v)))
     = (if v \<in> {''A'', ''B'', ''C'', ''D'', ''E''} then [] else [Enum])"
  by (simp add: NutriScore_field_cases)

lemma err_HealthAssessment_given:
  "map snd (err f (optional HealthAssessment_field (Given v)))
     = (if v \<in> {''Good for health'', ''Moderate'', ''Not recommended''} then [] else [Enum])"
  by (simp add: HealthAssessment_field_cases)

lemma FoodItem_errors_at_nutri_score:
  "errors_at ''nutri_score'' (fst (validate_FoodItem c k))
     = map snd (err ''nutri_score'' (optional NutriScore_field (food_kwargs.nutri_score k)))"
  unfolding validate_FoodItem_def Let_def
  by (simp add: filter_err split: prod.splits)

lemma FoodItem_errors_at_health_assessment:
  "errors_at ''health_assessment'' (fst (validate_FoodItem c k))
     = map snd (err ''health_assessment''
         (optional HealthAssessment_field (food_kwargs.health_assessment k)))"
  unfolding validate_FoodItem_def Let_def
  by (simp add: filter_err split: prod.splits)

lemma optional_Inr_Some:
  "optional v a = Inr (Some y) \<longleftrightarrow> (\<exists>x. a = Given x \<and> v x = Inr y)"
  by (cases a) (auto split: sum.splits)

lemma FoodItem_nutri_score_of:
  assumes "fst (validate_FoodItem c k) = Inr x"
  shows "optional NutriScore_field (food_kwargs.nutri_score k) = Inr (FoodItem.nutri_score x)"
  using assms unfolding validate_FoodItem_def Let_def
  by (auto simp: err_Nil_iff split: prod.splits if_splits)

lemma FoodItem_health_assessment_of:
  assumes "fst (validate_FoodItem c k) = Inr x"
  shows "optional HealthAssessment_field (food_kwargs.health_assessment k)
           = Inr (FoodItem.health_assessment x)"
  using assms unfolding validate_FoodItem_def Let_def
  by (auto simp: err_Nil_iff split: prod.splits if_splits)

lemma FoodItem_nutri_score_Some:
  assumes "fst (validate_FoodItem c k) = Inr x" and "FoodItem.nutri_score x = Some m"
  shows "food_kwargs.nutri_score k = Given (NutriScore_value m)"
  using FoodItem_nutri_score_of [OF assms(1)] assms(2)
  by (auto simp: optional_Inr_Some NutriScore_field_Inr)

lemma FoodItem_health_assessment_Some:
  assumes "fst (validate_FoodItem c k) = Inr x" and "FoodItem.health_assessment x = Some m"
  shows "food_kwargs.health_assessment k = Given (HealthAssessment_value m)"
  using FoodItem_health_assessment_of [OF assms(1)] assms(2)
  by (auto simp: optional_Inr_Some HealthAssessment_field_Inr)

lemma FoodItem_nutri_score_given:
  assumes "fst (validate_FoodItem c k) = Inr x" and "food_kwargs.nutri_score k = Given v"
  shows "v \<in> {''A'', ''B'', ''C'', ''D'', ''E''}
       \<and> map_option NutriScore_value (FoodItem.nutri_score x) = Some v"
proof -
  from FoodItem_nutri_score_of [OF assms(1)] assms(2)
  obtain m where m: "NutriScore_field v = Inr m" and x: "FoodItem.nutri_score x = Some m"
    by (auto split: sum.splits)
  from m have "NutriScore_value m = v" by (simp only: NutriScore_field_Inr)
  with x NutriScore_value_range [of m] show ?thesis by auto
qed

lemma FoodItem_health_assessment_given:
  assumes "fst (validate_FoodItem c k) = Inr x" and "food_kwargs.health_assessment k = Given w"
  shows "w \<in> {''Good for health'', ''Moderate'', ''Not recommended''}
       \<and> map_option HealthAssessment_value (FoodItem.health_assessment x) = Some w"
proof -
  from FoodItem_health_assessment_of [OF assms(1)] assms(2)
  obtain m where m: "HealthAssessment_field w = Inr m"
    and x: "FoodItem.health_assessment x = Some m"
    by (auto split: sum.splits)
  from m have "HealthAssessment_value m = w" by (simp only: HealthAssessment_field_Inr)
  with x HealthAssessment_value_range [of m] show ?thesis by auto
qed

lemma FoodItem_init_nutri_score:
  "FoodItem_object.nutri_score (fst (FoodItem_init c k)) = stored (food_kwargs.nutri_score k)"
  by (simp add: FoodItem_init_def split_beta)

lemma FoodItem_init_health_assessment:
  "FoodItem_object.health_assessment (fst (FoodItem_init c k))
     = stored (food_kwargs.health_assessment k)"
  by (simp add: FoodItem_init_def split_beta)

text \<open>
  C3, as the code has it: the validation of a FoodItem reports the enumeration error under
  \<open>nutri_score\<close> exactly when the given value is none of A, B, C, D, E, and under
  \<open>health_assessment\<close> exactly when the given value is none of "Good for health",
  "Moderate", "Not recommended"; so in a FoodItem that the validation built, a nutri_score
  or health_assessment that was given is one of these five and three values, and what the
  record holds is the member with that value. The plain constructor of the table class
  does not validate: the FoodItem it builds holds whatever was given for the two fields.
\<close>

theorem enum_fields_closed_under_validation:
  "(food_kwargs.nutri_score k = Given v \<longrightarrow>
      errors_at ''nutri_score'' (fst (validate_FoodItem c k))
        = (if v \<in> {''A'', ''B'', ''C'', ''D'', ''E''} then [] else [Enum]))
   \<and> (food_kwargs.health_assessment k = Given w \<longrightarrow>
      errors_at ''health_assessment'' (fst (validate_FoodItem c k))
        = (if w \<in> {''Good for health'', ''Moderate'', ''Not recommended''} then [] else [Enum]))
   \<and> (fst (validate_FoodItem c k) = Inr x \<longrightarrow>
        (food_kwargs.nutri_score k = Given v \<longrightarrow>
           v \<in> {''A'', ''B'', ''C'', ''D'', ''E''}
           \<and> map_option NutriScore_value (FoodItem.nutri_score x) = Some v)
      \<and> (food_kwargs.health_assessment k = Given w \<longrightarrow>
           w \<in> {''Good for health'', ''Moderate'', ''Not recommended''}
           \<and> map_option HealthAssessment_value (FoodItem.health_assessment x) = Some w)
      \<and> (\<forall>m. FoodItem.nutri_score x = Some m \<longrightarrow>
           food_kwargs.nutri_score k = Given (NutriScore_value m))
      \<and> (\<forall>m. FoodItem.health_assessment x = Some m \<longrightarrow>
           food_kwargs.health_assessment k = Given (HealthAssessment_value m)))
   \<and> FoodItem_object.nutri_score (fst (FoodItem_init c k))
        = stored (food_kwargs.nutri_score k)
   \<and> FoodItem_object.health_assessment (fst (FoodItem_init c k))
        = stored (food_kwargs.health_assessment k)"
proof (intro conjI impI allI)
  assume "food_kwargs.nutri_score k = Given v"
  then show "errors_at ''nutri_score'' (fst (validate_FoodItem c k))
        = (if v \<in> {''A'', ''B'', ''C'', ''D'', ''E''} then [] else [Enum])"
    by (simp only: FoodItem_errors_at_nutri_score err_NutriScore_given)
next
  assume "food_kwargs.health_assessment k = Given w"
  then show "errors_at ''health_assessment'' (fst (validate_FoodItem c k))
        = (if w \<in> {''Good for health'', ''Moderate'', ''Not recommended''} then [] else [Enum])"
    by (simp only: FoodItem_errors_at_health_assessment err_HealthAssessment_given)
next
  assume "fst (validate_FoodItem c k) = Inr x" "food_kwargs.nutri_score k = Given v"
  then show "v \<in> {''A'', ''B'', ''C'', ''D'', ''E''}"
    using FoodItem_nutri_score_given by blast
next
  assume "fst (validate_FoodItem c k) = Inr x" "food_kwargs.nutri_score k = Given v"
  then show "map_option NutriScore_value (FoodItem.nutri_score x) = Some v"
    using FoodItem_nutri_score_given by blast
next
  assume "fst (validate_FoodItem c k) = Inr x" "food_kwargs.health_assessment k = Given w"
  then show "w \<in> {''Good for health'', ''Moderate'', ''Not recommended''}"
    using FoodItem_health_assessment_given by blast
next
  assume "fst (validate_FoodItem c k) = Inr x" "food_kwargs.health_assessment k = Given w"
  then show "map_option HealthAssessment_value (FoodItem.health_assessment x) = Some w"
    using FoodItem_health_assessment_given by blast
next
  fix m assume "fst (validate_FoodItem c k) = Inr x" "FoodItem.nutri_score x = Some m"
  then show "food_kwargs.nutri_score k = Given (NutriScore_value m)"
    by (rule FoodItem_nutri_score_Some)
next
  fix m assume "fst (validate_FoodItem c k) = Inr x" "FoodItem.health_assessment x = Some m"
  then show "food_kwargs.health_assessment k = Given (HealthAssessment_value m)"
    by (rule FoodItem_health_assessment_Some)
next
  show "FoodItem_object.nutri_score (fst (FoodItem_init c k))
        = stored (food_kwargs.nutri_score k)"
    by (rule FoodItem_init_nutri_score)
next
  show "FoodItem_object.health_assessment (fst (FoodItem_init c k))
        = stored (food_kwargs.health_assessment k)"
    by (rule FoodItem_init_health_assessment)
qed

text \<open>
  \<^verbatim>\<open>FoodItem.model_validate\<close> rejects the nutri_score "F" and the health_assessment
  "good", and builds a FoodItem from "B" and "Moderate" that holds the members B and
  MODERATE.
\<close>

theorem enum_fields_closed_under_validation_witness:
  "errors_at ''nutri_score'' (fst (validate_FoodItem \<lparr>readings = \<lambda>n. Datetime (int n), taken = 0\<rparr>
      (no_FoodItem_kwargs\<lparr>food_kwargs.name := Given ''Oat flakes'',
         food_kwargs.nutri_score := Given ''F'',
         food_kwargs.health_assessment := Given ''good''\<rparr>))) = [Enum]
   \<and> errors_at ''health_assessment'' (fst (validate_FoodItem \<lparr>readings = \<lambda>n. Datetime (int n), taken = 0\<rparr>
      (no_FoodItem_kwargs\<lparr>food_kwargs.name := Given ''Oat flakes'',
         food_kwargs.nutri_score := Given ''F'',
         food_kwargs.health_assessment := Given ''good''\<rparr>))) = [Enum]
   \<and> (\<exists>x. fst (validate_FoodItem \<lparr>readings = \<lambda>n. Datetime (int n), taken = 0\<rparr>
      (no_FoodItem_kwargs\<lparr>food_kwargs.name := Given ''Oat flakes'',
         food_kwargs.nutri_score := Given ''B'',
         food_kwargs.health_assessment := Given ''Moderate''\<rparr>)) = Inr x
      \<and> FoodItem.nutri_score x = Some B \<and> FoodItem.health_assessment x = Some MODERATE
      \<and> ''B'' \<in> {''A'', ''B'', ''C'', ''D'', ''E''}
      \<and> ''Moderate'' \<in> {''Good for health'', ''Moderate'', ''Not recommended''}
      \<and> map_option NutriScore_value (FoodItem.nutri_score x) = Some ''B''
      \<and> map_option HealthAssessment_value (FoodItem.health_assessment x) = Some ''Moderate'')"
proof -
  note t1 = enum_fields_closed_under_validation [where c = "\<lparr>readings = \<lambda>n. Datetime (int n), taken = 0\<rparr>"
      and v = "''F''" and w = "''good''"
      and k = "no_FoodItem_kwargs\<lparr>food_kwargs.name := Given ''Oat flakes'',
         food_kwargs.nutri_score := Given ''F'',
         food_kwargs.health_assessment := Given ''good''\<rparr>"]
  have e: "errors_at ''nutri_score'' (fst (validate_FoodItem \<lparr>readings = \<lambda>n. Datetime (int n), taken = 0\<rparr>
      (no_FoodItem_kwargs\<lparr>food_kwargs.name := Given ''Oat flakes'',
         food_kwargs.nutri_score := Given ''F'',
         food_kwargs.health_assessment := Given ''good''\<rparr>))) = [Enum]
   \<and> errors_at ''health_assessment'' (fst (validate_FoodItem \<lparr>readings = \<lambda>n. Datetime (int n), taken = 0\<rparr>
      (no_FoodItem_kwargs\<lparr>food_kwargs.name := Given ''Oat flakes'',
         food_kwargs.nutri_score := Given ''F'',
         food_kwargs.health_assessment := Given ''good''\<rparr>))) = [Enum]"
    using t1 [THEN conjunct1] t1 [THEN conjunct2, THEN conjunct1] by simp
  obtain x where x: "fst (validate_FoodItem \<lparr>readings = \<lambda>n. Datetime (int n), taken = 0\<rparr>
      (no_FoodItem_kwargs\<lparr>food_kwargs.name := Given ''Oat flakes'',
         food_kwargs.nutri_score := Given ''B'',
         food_kwargs.health_assessment := Given ''Moderate''\<rparr>)) = Inr x"
    and n: "FoodItem.nutri_score x = Some B"
    and h: "FoodItem.health_assessment x = Some MODERATE"
    unfolding validate_FoodItem_def no_FoodItem_kwargs_def Let_def
    by (simp add: utcnow_def NutriScore_field_cases HealthAssessment_field_cases)
  have gn: "food_kwargs.nutri_score (no_FoodItem_kwargs\<lparr>food_kwargs.name := Given ''Oat flakes'',
         food_kwargs.nutri_score := Given ''B'',
         food_kwargs.health_assessment := Given ''Moderate''\<rparr>) = Given ''B''"
    and gh: "food_kwargs.health_assessment (no_FoodItem_kwargs\<lparr>food_kwargs.name := Given ''Oat flakes'',
         food_kwargs.nutri_score := Given ''B'',
         food_kwargs.health_assessment := Given ''Moderate''\<rparr>) = Given ''Moderate''"
    by simp_all
  note t2 = enum_fields_closed_under_validation [where c = "\<lparr>readings = \<lambda>n. Datetime (int n), taken = 0\<rparr>"
      and x = x and v = "''B''" and w = "''Moderate''"
      and k = "no_FoodItem_kwargs\<lparr>food_kwargs.name := Given ''Oat flakes'',
         food_kwargs.nutri_score := Given ''B'',
         food_kwargs.health_assessment := Given ''Moderate''\<rparr>",
      THEN conjunct2, THEN conjunct2, THEN conjunct1, THEN mp, OF x]
  note a = t2 [THEN conjunct1, THEN mp, OF gn]
  note b = t2 [THEN conjunct2, THEN conjunct1, THEN mp, OF gh]
  from e x n h a b show ?thesis by blast
qed

text \<open>
  The claim as stated, for every FoodItem record, fails at
  \<^verbatim>\<open>FoodItem(name='Oat flakes', nutri_score='F', health_assessment='good')\<close>: the table
  class is constructed without validation, and the record holds "F" and "good".
\<close>

theorem unvalidated_food_item_keeps_any_value:
  "FoodItem_object.nutri_score (fst (FoodItem_init \<lparr>readings = \<lambda>n. Datetime (int n), taken = 0\<rparr>
      (no_FoodItem_kwargs\<lparr>food_kwargs.name := Given ''Oat flakes'',
         food_kwargs.nutri_score := Given ''F'',
         food_kwargs.health_assessment := Given ''good''\<rparr>))) = Some ''F''
   \<and> ''F'' \<notin> {''A'', ''B'', ''C'', ''D'', ''E''}
   \<and> FoodItem_object.health_assessment (fst (FoodItem_init \<lparr>readings = \<lambda>n. Datetime (int n), taken = 0\<rparr>
      (no_FoodItem_kwargs\<lparr>food_kwargs.name := Given ''Oat flakes'',
         food_kwargs.nutri_score := Given ''F'',
         food_kwargs.health_assessment := Given ''good''\<rparr>))) = Some ''good''
   \<and> ''good'' \<notin> {''Good for health'', ''Moderate'', ''Not recommended''}"
  by (simp add: FoodItem_init_def split_beta)

subsection \<open>The scan result schema\<close>

lemma ScanResult_found_food_item:
  "validate_ScanResult c
     \<lparr>ScanResult_kwargs.barcode = Given b, ScanResult_kwargs.found = Given fd,
      ScanResult_kwargs.food_item = fi, ScanResult_kwargs.nutri_score = Omitted,
      ScanResult_kwargs.health_assessment = Omitted,
      ScanResult_kwargs.scan_timestamp = Omitted\<rparr>
   = (Inr \<lparr>ScanResult.barcode = b, ScanResult.found = fd,
        ScanResult.food_item = (case fi of Given m \<Rightarrow> Some m | _ \<Rightarrow> None),
        ScanResult.nutri_score = None, ScanResult.health_assessment = None,
        ScanResult.scan_timestamp = readings c (taken c)\<rparr>,
      c\<lparr>taken := Suc (taken c)\<rparr>)"
  by (cases fi) (simp_all add: validate_ScanResult_def utcnow_def)

text \<open>
  C10: the validation of a ScanResult accepts \<open>found = True\<close> with no food_item, and
  \<open>found = False\<close> with a food_item mapping, whatever the barcode, the mapping and the
  clock are: the schema does not relate the two fields.
\<close>

theorem found_not_coupled_to_food_item:
  "(\<exists>x c'. validate_ScanResult c
        \<lparr>ScanResult_kwargs.barcode = Given b, ScanResult_kwargs.found = Given True,
         ScanResult_kwargs.food_item = PyNone, ScanResult_kwargs.nutri_score = Omitted,
         ScanResult_kwargs.health_assessment = Omitted,
         ScanResult_kwargs.scan_timestamp = Omitted\<rparr> = (Inr x, c')
      \<and> ScanResult.found x \<and> ScanResult.food_item x = None)
   \<and> (\<exists>x c'. validate_ScanResult c
        \<lparr>ScanResult_kwargs.barcode = Given b, ScanResult_kwargs.found = Given False,
         ScanResult_kwargs.food_item = Given m, ScanResult_kwargs.nutri_score = Omitted,
         ScanResult_kwargs.health_assessment = Omitted,
         ScanResult_kwargs.scan_timestamp = Omitted\<rparr> = (Inr x, c')
      \<and> \<not> ScanResult.found x \<and> ScanResult.food_item x = Some m)"
  by (simp add: ScanResult_found_food_item)

theorem found_not_coupled_to_food_item_witness:
  "(\<exists>x c'. validate_ScanResult \<lparr>readings = \<lambda>n. Datetime (int n), taken = 0\<rparr>
        \<lparr>ScanResult_kwargs.barcode = Given ''5901234123457'',
         ScanResult_kwargs.found = Given True,
         ScanResult_kwargs.food_item = PyNone, ScanResult_kwargs.nutri_score = Omitted,
         ScanResult_kwargs.health_assessment = Omitted,
         ScanResult_kwargs.scan_timestamp = Omitted\<rparr> = (Inr x, c')
      \<and> ScanResult.found x \<and> ScanResult.food_item x = (None :: (string \<rightharpoonup> string) option))
   \<and> (\<exists>x c'. validate_ScanResult \<lparr>readings = \<lambda>n. Datetime (int n), taken = 0\<rparr>
        \<lparr>ScanResult_kwargs.barcode = Given ''5901234123457'',
         ScanResult_kwargs.found = Given False,
         ScanResult_kwargs.food_item = Given [''name'' \<mapsto> ''Oat flakes''],
         ScanResult_kwargs.nutri_score = Omitted,
         ScanResult_kwargs.health_assessment = Omitted,
         ScanResult_kwargs.scan_timestamp = Omitted\<rparr> = (Inr x, c')
      \<and> \<not> ScanResult.found x
      \<and> ScanResult.food_item x = Some [''name'' \<mapsto> ''Oat flakes''])"
  by (rule found_not_coupled_to_food_item)

subsection \<open>Timestamps\<close>












subsection \<open>Nutrient quantities and thresholds\<close>

lemma ex_if_Inr:
  "(\<exists>y. (if es = [] then Inr r else Inl es) = Inr y) \<longleftrightarrow> es = []"
  by simp

lemma err_optional_plain: "err f (optional plain_field a) = []"
  by (cases a) simp_all

lemma err_optional_decimal:
  "err f (optional decimal_field (Given d)) = (if is_finite d then [] else [(f, Finite_number)])"
  by simp

lemma FoodItemCreate_accepted_iff:
  "(\<exists>x. validate_FoodItemCreate k = Inr x) \<longleftrightarrow>
     err ''name'' (required String_type (str_field (Some 255)) (food_kwargs.name k)) = []
   \<and> err ''brand'' (optional (str_field (Some 255)) (food_kwargs.brand k)) = []
   \<and> err ''description'' (optional (str_field (Some 1000)) (food_kwargs.description k)) = []
   \<and> err ''energy_kj'' (optional decimal_field (food_kwargs.energy_kj k)) = []
   \<and> err ''energy_kcal'' (optional decimal_field (food_kwargs.energy_kcal k)) = []
   \<and> err ''fat'' (optional decimal_field (food_kwargs.fat k)) = []
   \<and> err ''saturated_fat'' (optional decimal_field (food_kwargs.saturated_fat k)) = []
   \<and> err ''carbohydrates'' (optional decimal_field (food_kwargs.carbohydrates k)) = []
   \<and> err ''sugars'' (optional decimal_field (food_kwargs.sugars k)) = []
   \<and> err ''fiber'' (optional decimal_field (food_kwargs.fiber k)) = []
   \<and> err ''protein'' (optional decimal_field (food_kwargs.protein k)) = []
   \<and> err ''salt'' (optional decimal_field (food_kwargs.salt k)) = []
   \<and> err ''sodium'' (optional decimal_field (food_kwargs.sodium k)) = []
   \<and> err ''nutri_score'' (optional NutriScore_field (food_kwargs.nutri_score k)) = []
   \<and> err ''health_assessment''
        (optional HealthAssessment_field (food_kwargs.health_assessment k)) = []"
  unfolding validate_FoodItemCreate_def Let_def ex_if_Inr
  by (simp add: conj_assoc err_optional_plain)

lemma FoodItem_accepted_iff:
  "(\<exists>x. fst (validate_FoodItem c k) = Inr x) \<longleftrightarrow>
     err ''name'' (required String_type (str_field (Some 255)) (food_kwargs.name k)) = []
   \<and> err ''brand'' (optional (str_field (Some 255)) (food_kwargs.brand k)) = []
   \<and> err ''description'' (optional (str_field (Some 1000)) (food_kwargs.description k)) = []
   \<and> err ''energy_kj'' (optional decimal_field (food_kwargs.energy_kj k)) = []
   \<and> err ''energy_kcal'' (optional decimal_field (food_kwargs.energy_kcal k)) = []
   \<and> err ''fat'' (optional decimal_field (food_kwargs.fat k)) = []
   \<and> err ''saturated_fat'' (optional decimal_field (food_kwargs.saturated_fat k)) = []
   \<and> err ''carbohydrates'' (optional decimal_field (food_kwargs.carbohydrates k)) = []
   \<and> err ''sugars'' (optional decimal_field (food_kwargs.sugars k)) = []
   \<and> err ''fiber'' (optional decimal_field (food_kwargs.fiber k)) = []
   \<and> err ''protein'' (optional decimal_field (food_kwargs.protein k)) = []
   \<and> err ''salt'' (optional decimal_field (food_kwargs.salt k)) = []
   \<and> err ''sodium'' (optional decimal_field (food_kwargs.sodium k)) = []
   \<and> err ''nutri_score'' (optional NutriScore_field (food_kwargs.nutri_score k)) = []
   \<and> err ''health_assessment''
        (optional HealthAssessment_field (food_kwargs.health_assessment k)) = []
   \<and> err ''created_at'' (fst (utcnow_default c (FoodItem_kwargs.created_at k))) = []
   \<and> err ''updated_at''
        (fst (utcnow_default (snd (utcnow_default c (FoodItem_kwargs.created_at k)))
           (FoodItem_kwargs.updated_at k))) = []"
  unfolding validate_FoodItem_def Let_def
  by (simp add: conj_assoc err_optional_plain split_beta)

lemma NutritionProfile_accepted_iff:
  "(\<exists>x. fst (validate_NutritionProfile c k) = Inr x) \<longleftrightarrow>
     err ''name'' (required String_type (str_field (Some 100)) (NutritionProfile_kwargs.name k)) = []
   \<and> err ''description''
        (optional (str_field (Some 500)) (NutritionProfile_kwargs.description k)) = []
   \<and> err ''max_fat_per_100g''
        (optional decimal_field (NutritionProfile_kwargs.max_fat_per_100g k)) = []
   \<and> err ''max_saturated_fat_per_100g''
        (optional decimal_field (NutritionProfile_kwargs.max_saturated_fat_per_100g k)) = []
   \<and> err ''max_sugars_per_100g''
        (optional decimal_field (NutritionProfile_kwargs.max_sugars_per_100g k)) = []
   \<and> err ''max_salt_per_100g''
        (optional decimal_field (NutritionProfile_kwargs.max_salt_per_100g k)) = []
   \<and> err ''min_fiber_per_100g''
        (optional decimal_field (NutritionProfile_kwargs.min_fiber_per_100g k)) = []
   \<and> err ''min_protein_per_100g''
        (optional decimal_field (NutritionProfile_kwargs.min_protein_per_100g k)) = []
   \<and> err ''created_at'' (fst (utcnow_default c (NutritionProfile_kwargs.created_at k))) = []
   \<and> err ''updated_at''
        (fst (utcnow_default (snd (utcnow_default c (NutritionProfile_kwargs.created_at k)))
           (NutritionProfile_kwargs.updated_at k))) = []"
  unfolding validate_NutritionProfile_def Let_def
  by (simp add: conj_assoc err_optional_plain split_beta)

lemma FoodItemCreate_nutrient_accepted:
  assumes "(f, get, put) \<in> set nutrient_fields" and "is_finite d"
    and "\<exists>x. validate_FoodItemCreate k = Inr x"
  shows "\<exists>y. validate_FoodItemCreate (put (Given d) k) = Inr y"
  using assms unfolding nutrient_fields_def FoodItemCreate_accepted_iff
  apply (simp only: set_simps insert_iff empty_iff prod.inject simp_thms)
  apply (elim disjE conjE)
  apply (simp_all add: err_optional_decimal del: err.simps optional.simps required.simps utcnow_default.simps)
  done

lemma FoodItem_nutrient_accepted:
  assumes "(f, get, put) \<in> set nutrient_fields" and "is_finite d"
    and "\<exists>x. fst (validate_FoodItem c k) = Inr x"
  shows "\<exists>y. fst (validate_FoodItem c (put (Given d) k)) = Inr y"
  using assms unfolding nutrient_fields_def FoodItem_accepted_iff
  apply (simp only: set_simps insert_iff empty_iff prod.inject simp_thms)
  apply (elim disjE conjE)
  apply (simp_all add: err_optional_decimal del: err.simps optional.simps required.simps utcnow_default.simps)
  done

lemma NutritionProfile_threshold_accepted:
  assumes "(f, get, put) \<in> set threshold_fields" and "is_finite d"
    and "\<exists>x. fst (validate_NutritionProfile c k) = Inr x"
  shows "\<exists>y. fst (validate_NutritionProfile c (put (Given d) k)) = Inr y"
  using assms unfolding threshold_fields_def NutritionProfile_accepted_iff
  apply (simp only: set_simps insert_iff empty_iff prod.inject simp_thms)
  apply (elim disjE conjE)
  apply (simp_all add: err_optional_decimal del: err.simps optional.simps required.simps utcnow_default.simps)
  done

lemma FoodItemCreate_nutrient_errors:
  assumes "(f, get, put) \<in> set nutrient_fields"
  shows "errors_at f (validate_FoodItemCreate (put (Given d) k))
           = (if is_finite d then [] else [Finite_number])"
  using assms unfolding nutrient_fields_def validate_FoodItemCreate_def Let_def errors_at_if
  apply (simp only: set_simps insert_iff empty_iff prod.inject simp_thms)
  apply (elim disjE conjE)
  apply (simp_all add: filter_err)
  done

lemma FoodItem_nutrient_errors:
  assumes "(f, get, put) \<in> set nutrient_fields"
  shows "errors_at f (fst (validate_FoodItem c (put (Given d) k)))
           = (if is_finite d then [] else [Finite_number])"
  using assms unfolding nutrient_fields_def validate_FoodItem_def Let_def
  apply (simp only: set_simps insert_iff empty_iff prod.inject simp_thms)
  apply (elim disjE conjE)
  apply (simp_all add: filter_err split_beta)
  done

lemma NutritionProfile_threshold_errors:
  assumes "(f, get, put) \<in> set threshold_fields"
  shows "errors_at f (fst (validate_NutritionProfile c (put (Given d) k)))
           = (if is_finite d then [] else [Finite_number])"
  using assms unfolding threshold_fields_def validate_NutritionProfile_def Let_def
  apply (simp only: set_simps insert_iff empty_iff prod.inject simp_thms)
  apply (elim disjE conjE)
  apply (simp_all add: filter_err split_beta)
  done

text \<open>
  C8, as the code has it: validation looks at a nutrient or threshold value only to see
  whether it is finite. A finite Decimal of either sign and of any magnitude given for a
  nutrient field of FoodItemCreate or FoodItem, or for a threshold field of
  NutritionProfile, raises no error for that field and leaves an accepted call accepted;
  a Decimal that is not finite (an infinity or a NaN) is rejected with the finite-number
  error.
\<close>

theorem nutrients_checked_for_finiteness_only:
  "((f1, get1, put1) \<in> set nutrient_fields \<longrightarrow>
      errors_at f1 (validate_FoodItemCreate (put1 (Given d) k1))
        = (if is_finite d then [] else [Finite_number])
      \<and> (is_finite d \<longrightarrow> (\<exists>x. validate_FoodItemCreate k1 = Inr x) \<longrightarrow>
           (\<exists>y. validate_FoodItemCreate (put1 (Given d) k1) = Inr y)))
   \<and> ((f2, get2, put2) \<in> set nutrient_fields \<longrightarrow>
      errors_at f2 (fst (validate_FoodItem c (put2 (Given d) k2)))
        = (if is_finite d then [] else [Finite_number])
      \<and> (is_finite d \<longrightarrow> (\<exists>x. fst (validate_FoodItem c k2) = Inr x) \<longrightarrow>
           (\<exists>y. fst (validate_FoodItem c (put2 (Given d) k2)) = Inr y)))
   \<and> ((f3, get3, put3) \<in> set threshold_fields \<longrightarrow>
      errors_at f3 (fst (validate_NutritionProfile c (put3 (Given d) k3)))
        = (if is_finite d then [] else [Finite_number])
      \<and> (is_finite d \<longrightarrow> (\<exists>x. fst (validate_NutritionProfile c k3) = Inr x) \<longrightarrow>
           (\<exists>y. fst (validate_NutritionProfile c (put3 (Given d) k3)) = Inr y)))"
proof (intro conjI impI)
  assume "(f1, get1, put1) \<in> set nutrient_fields"
  then show "errors_at f1 (validate_FoodItemCreate (put1 (Given d) k1))
        = (if is_finite d then [] else [Finite_number])"
    by (rule FoodItemCreate_nutrient_errors)
next
  assume "(f1, get1, put1) \<in> set nutrient_fields" "is_finite d"
    "\<exists>x. validate_FoodItemCreate k1 = Inr x"
  then show "\<exists>y. validate_FoodItemCreate (put1 (Given d) k1) = Inr y"
    by (rule FoodItemCreate_nutrient_accepted)
next
  assume "(f2, get2, put2) \<in> set nutrient_fields"
  then show "errors_at f2 (fst (validate_FoodItem c (put2 (Given d) k2)))
        = (if is_finite d then [] else [Finite_number])"
    by (rule FoodItem_nutrient_errors)
next
  assume "(f2, get2, put2) \<in> set nutrient_fields" "is_finite d"
    "\<exists>x. fst (validate_FoodItem c k2) = Inr x"
  then show "\<exists>y. fst (validate_FoodItem c (put2 (Given d) k2)) = Inr y"
    by (rule FoodItem_nutrient_accepted)
next
  assume "(f3, get3, put3) \<in> set threshold_fields"
  then show "errors_at f3 (fst (validate_NutritionProfile c (put3 (Given d) k3)))
        = (if is_finite d then [] else [Finite_number])"
    by (rule NutritionProfile_threshold_errors)
next
  assume "(f3, get3, put3) \<in> set threshold_fields" "is_finite d"
    "\<exists>x. fst (validate_NutritionProfile c k3) = Inr x"
  then show "\<exists>y. fst (validate_NutritionProfile c (put3 (Given d) k3)) = Inr y"
    by (rule NutritionProfile_threshold_accepted)
qed

text \<open>
  A negative quantity of any size is accepted: \<^verbatim>\<open>Decimal('-12345678901234567890.5')\<close> as
  the sugars of a FoodItemCreate.
\<close>

theorem nutrients_checked_for_finiteness_only_witness:
  "(''sugars'', food_kwargs.sugars, \<lambda>v k. k\<lparr>food_kwargs.sugars := v\<rparr>)
      \<in> set (nutrient_fields ::
          (string \<times> (food_kwargs \<Rightarrow> Decimal arg)
             \<times> (Decimal arg \<Rightarrow> food_kwargs \<Rightarrow> food_kwargs)) list)
   \<and> is_finite (Finite True 123456789012345678905 (-1))
   \<and> is_signed (Finite True 123456789012345678905 (-1))
   \<and> (\<exists>x. validate_FoodItemCreate (no_kwargs\<lparr>food_kwargs.name := Given ''Oat flakes''\<rparr>)
          = Inr x)
   \<and> errors_at ''sugars'' (validate_FoodItemCreate
        (no_kwargs\<lparr>food_kwargs.name := Given ''Oat flakes'',
           food_kwargs.sugars := Given (Finite True 123456789012345678905 (-1))\<rparr>)) = []
   \<and> (\<exists>y. validate_FoodItemCreate
        (no_kwargs\<lparr>food_kwargs.name := Given ''Oat flakes'',
           food_kwargs.sugars := Given (Finite True 123456789012345678905 (-1))\<rparr>) = Inr y)
   \<and> (\<exists>y. fst (validate_FoodItem \<lparr>readings = \<lambda>n. Datetime (int n), taken = 0\<rparr>
        (no_FoodItem_kwargs\<lparr>food_kwargs.name := Given ''Oat flakes'',
           food_kwargs.sugars := Given (Finite True 123456789012345678905 (-1))\<rparr>)) = Inr y)
   \<and> (\<exists>y :: string NutritionProfile.
        fst (validate_NutritionProfile \<lparr>readings = \<lambda>n. Datetime (int n), taken = 0\<rparr>
          (general_adult_kwargs\<lparr>NutritionProfile_kwargs.max_sugars_per_100g :=
             Given (Finite True 123456789012345678905 (-1))\<rparr>)) = Inr y)"
proof -
  have m: "(''sugars'', food_kwargs.sugars, \<lambda>v k. k\<lparr>food_kwargs.sugars := v\<rparr>)
      \<in> set (nutrient_fields ::
          (string \<times> (food_kwargs \<Rightarrow> Decimal arg)
             \<times> (Decimal arg \<Rightarrow> food_kwargs \<Rightarrow> food_kwargs)) list)"
    by (simp add: nutrient_fields_def)
  have m2: "(''sugars'', food_kwargs.sugars, \<lambda>v k. k\<lparr>food_kwargs.sugars := v\<rparr>)
      \<in> set (nutrient_fields ::
          (string \<times> (FoodItem_kwargs \<Rightarrow> Decimal arg)
             \<times> (Decimal arg \<Rightarrow> FoodItem_kwargs \<Rightarrow> FoodItem_kwargs)) list)"
    by (simp add: nutrient_fields_def)
  have m3: "(''max_sugars_per_100g'', NutritionProfile_kwargs.max_sugars_per_100g,
       \<lambda>v k. k\<lparr>NutritionProfile_kwargs.max_sugars_per_100g := v\<rparr>)
      \<in> set (threshold_fields ::
          (string \<times> (string NutritionProfile_kwargs \<Rightarrow> Decimal arg)
             \<times> (Decimal arg \<Rightarrow> string NutritionProfile_kwargs
                  \<Rightarrow> string NutritionProfile_kwargs)) list)"
    by (simp add: threshold_fields_def)
  have fin: "is_finite (Finite True 123456789012345678905 (-1))" by simp
  have sgn: "is_signed (Finite True 123456789012345678905 (-1))" by simp
  have ok: "\<exists>x. validate_FoodItemCreate (no_kwargs\<lparr>food_kwargs.name := Given ''Oat flakes''\<rparr>)
          = Inr x"
    by (simp add: FoodItemCreate_only_name)
  have ok2: "\<exists>x. fst (validate_FoodItem \<lparr>readings = \<lambda>n. Datetime (int n), taken = 0\<rparr>
        (no_FoodItem_kwargs\<lparr>food_kwargs.name := Given ''Oat flakes''\<rparr>)) = Inr x"
    by (simp add: FoodItem_only_name)
  have ok3: "\<exists>x :: string NutritionProfile.
      fst (validate_NutritionProfile \<lparr>readings = \<lambda>n. Datetime (int n), taken = 0\<rparr> general_adult_kwargs) = Inr x"
    unfolding validate_NutritionProfile_def general_adult_kwargs_def Let_def
    by (simp add: utcnow_def)
  note t = nutrients_checked_for_finiteness_only [where ?f1.0 = "''sugars''"
      and ?get1.0 = food_kwargs.sugars and ?put1.0 = "\<lambda>v k. k\<lparr>food_kwargs.sugars := v\<rparr>"
      and d = "Finite True 123456789012345678905 (-1)"
      and ?k1.0 = "no_kwargs\<lparr>food_kwargs.name := Given ''Oat flakes''\<rparr>"
      and ?f2.0 = "''sugars''"
      and ?get2.0 = food_kwargs.sugars and ?put2.0 = "\<lambda>v k. k\<lparr>food_kwargs.sugars := v\<rparr>"
      and ?k2.0 = "no_FoodItem_kwargs\<lparr>food_kwargs.name := Given ''Oat flakes''\<rparr>"
      and c = "\<lparr>readings = \<lambda>n. Datetime (int n), taken = 0\<rparr>"
      and ?f3.0 = "''max_sugars_per_100g''"
      and ?get3.0 = NutritionProfile_kwargs.max_sugars_per_100g
      and ?put3.0 = "\<lambda>v k. k\<lparr>NutritionProfile_kwargs.max_sugars_per_100g := v\<rparr>"
      and ?k3.0 = "general_adult_kwargs :: string NutritionProfile_kwargs"]
  note a = t [THEN conjunct1, THEN mp, OF m]
  note b = t [THEN conjunct2, THEN conjunct1, THEN mp, OF m2]
  note c = t [THEN conjunct2, THEN conjunct2, THEN mp, OF m3]
  from a [THEN conjunct1] a [THEN conjunct2, THEN mp, OF fin, THEN mp, OF ok]
    b [THEN conjunct2, THEN mp, OF fin, THEN mp, OF ok2]
    c [THEN conjunct2, THEN mp, OF fin, THEN mp, OF ok3] m fin sgn ok
  show ?thesis by simp
qed

text \<open>
  The claim as stated, for every Decimal value, fails at \<^verbatim>\<open>Decimal('Infinity')\<close>:
  \<^verbatim>\<open>FoodItemCreate(name='Oat flakes', fat=Decimal('Infinity'))\<close> is rejected.
\<close>

theorem infinite_nutrient_rejected:
  "validate_FoodItemCreate
     (no_kwargs\<lparr>food_kwargs.name := Given ''Oat flakes'',
        food_kwargs.fat := Given (Infinity False)\<rparr>)
   = Inl [(''fat'', Finite_number)]"
  by (simp add: validate_FoodItemCreate_def no_kwargs_def)

subsection \<open>The store: unique codes and foreign keys\<close>

lemma find_append:
  "find P (xs @ ys) = (case find P xs of None \<Rightarrow> find P ys | Some x \<Rightarrow> Some x)"
  by (induction xs) simp_all

lemma barcodes_insert_food_item: "barcodes (snd (insert_food_item s f)) = barcodes s"
  by (simp add: insert_food_item_def Let_def)

lemma scan_history_insert_food_item:
  "scan_history (snd (insert_food_item s f)) = scan_history s"
  by (simp add: insert_food_item_def Let_def)

lemma get_food_item_insert_food_item:
  "get_food_item s i \<noteq> None \<Longrightarrow> get_food_item (snd (insert_food_item s f)) i \<noteq> None"
  by (auto simp: get_food_item_def insert_food_item_def Let_def find_append split: option.splits)

lemma food_items_insert_barcode: "food_items (snd (insert_barcode s b)) = food_items s"
  by (simp add: insert_barcode_def Let_def)

lemma get_food_item_insert_barcode:
  "get_food_item (snd (insert_barcode s b)) i = get_food_item s i"
  by (simp add: get_food_item_def food_items_insert_barcode)

lemma scan_history_insert_barcode: "scan_history (snd (insert_barcode s b)) = scan_history s"
  by (simp add: insert_barcode_def Let_def)

lemma food_items_insert_scan_history:
  "food_items (snd (insert_scan_history s h)) = food_items s"
  by (simp add: insert_scan_history_def Let_def)

lemma get_food_item_insert_scan_history:
  "get_food_item (snd (insert_scan_history s h)) i = get_food_item s i"
  by (simp add: get_food_item_def food_items_insert_scan_history)

lemma barcodes_insert_scan_history: "barcodes (snd (insert_scan_history s h)) = barcodes s"
  by (simp add: insert_scan_history_def Let_def)

lemma barcodes_insert_barcode:
  "barcodes (snd (insert_barcode s b)) =
     (if get_food_item s (Barcode.food_item_id b) \<noteq> None
         \<and> Barcode.code b \<notin> set (map Barcode.code (barcodes s))
      then barcodes s @ [b\<lparr>Barcode.id := Some (new_id (map Barcode.id (barcodes s)))\<rparr>]
      else barcodes s)"
  by (simp add: insert_barcode_def Let_def)

lemma scan_history_insert_scan_history:
  "scan_history (snd (insert_scan_history s h)) =
     (if get_food_item s (ScanHistory.food_item_id h) \<noteq> None
      then scan_history s @
        [h\<lparr>ScanHistory.id := Some (new_id (map ScanHistory.id (scan_history s)))\<rparr>]
      else scan_history s)"
  by (simp add: insert_scan_history_def Let_def)

lemma reachable_codes_distinct:
  "reachable s \<Longrightarrow> distinct (map Barcode.code (barcodes s))"
proof (induction rule: reachable.induct)
  case reachable_empty
  show ?case by (simp add: empty_store_def)
next
  case (reachable_food_item s f)
  then show ?case by (simp add: barcodes_insert_food_item)
next
  case (reachable_barcode s b)
  then show ?case by (simp add: barcodes_insert_barcode)
next
  case (reachable_scan_history s h)
  then show ?case by (simp add: barcodes_insert_scan_history)
qed

lemma reachable_barcodes_reference:
  "reachable s \<Longrightarrow> b \<in> set (barcodes s) \<Longrightarrow> get_food_item s (Barcode.food_item_id b) \<noteq> None"
proof (induction arbitrary: b rule: reachable.induct)
  case reachable_empty
  then show ?case by (simp add: empty_store_def)
next
  case (reachable_food_item s f)
  then show ?case
    by (simp add: barcodes_insert_food_item get_food_item_insert_food_item)
next
  case (reachable_barcode s b')
  then show ?case
    by (auto simp: barcodes_insert_barcode get_food_item_insert_barcode split: if_splits)
next
  case (reachable_scan_history s h)
  then show ?case
    by (simp add: barcodes_insert_scan_history get_food_item_insert_scan_history)
qed

lemma reachable_scan_history_reference:
  "reachable s \<Longrightarrow> h \<in> set (scan_history s)
     \<Longrightarrow> get_food_item s (ScanHistory.food_item_id h) \<noteq> None"
proof (induction arbitrary: h rule: reachable.induct)
  case reachable_empty
  then show ?case by (simp add: empty_store_def)
next
  case (reachable_food_item s f)
  then show ?case
    by (simp add: scan_history_insert_food_item get_food_item_insert_food_item)
next
  case (reachable_barcode s b)
  then show ?case
    by (simp add: scan_history_insert_barcode get_food_item_insert_barcode)
next
  case (reachable_scan_history s h')
  then show ?case
    by (auto simp: scan_history_insert_scan_history get_food_item_insert_scan_history
        split: if_splits)
qed

lemma insert_barcode_duplicate:
  assumes "Barcode.code b \<in> set (map Barcode.code (barcodes s))"
  shows "\<exists>es. insert_barcode s b = (Inl es, s) \<and> UniquenessViolation \<in> set es"
  using assms by (simp add: insert_barcode_def Let_def)

lemma insert_barcode_dangling:
  assumes "get_food_item s (Barcode.food_item_id b) = None"
  shows "\<exists>es. insert_barcode s b = (Inl es, s) \<and> ReferentialIntegrityError \<in> set es"
  using assms by (simp add: insert_barcode_def Let_def)

lemma insert_scan_history_dangling:
  assumes "get_food_item s (ScanHistory.food_item_id h) = None"
  shows "\<exists>es. insert_scan_history s h = (Inl es, s) \<and> ReferentialIntegrityError \<in> set es"
  using assms by (simp add: insert_scan_history_def Let_def)

lemma reachable_oat_store: "reachable oat_store"
  unfolding oat_store_def
  by (intro reachable_scan_history reachable_barcode reachable_food_item reachable_empty)

lemma oat_store_rows:
  "oat_store =
     \<lparr>food_items = [oat_flakes\<lparr>FoodItem.id := Some 1\<rparr>],
      barcodes = [oat_barcode\<lparr>Barcode.id := Some 1\<rparr>],
      scan_history = [oat_scan\<lparr>ScanHistory.id := Some 1\<rparr>]\<rparr>"
  by (simp add: oat_store_def insert_scan_history_def insert_barcode_def insert_food_item_def
      get_food_item_def empty_store_def new_id_def oat_barcode_def oat_scan_def
      List.map_filter_simps Let_def)

text \<open>
  C1: in every reachable state of the store the codes of the stored Barcodes are pairwise
  distinct; and in any state, inserting a Barcode whose code a stored Barcode has fails,
  reports a UniquenessViolation and leaves the state as it was.
\<close>

theorem barcode_code_unique:
  "(reachable s \<longrightarrow> distinct (map Barcode.code (barcodes s)))
   \<and> (Barcode.code b \<in> set (map Barcode.code (barcodes s)) \<longrightarrow>
        (\<exists>es. insert_barcode s b = (Inl es, s) \<and> UniquenessViolation \<in> set es))"
  using reachable_codes_distinct insert_barcode_duplicate by blast

theorem barcode_code_unique_witness:
  "reachable oat_store
   \<and> Barcode.code oat_barcode \<in> set (map Barcode.code (barcodes oat_store))
   \<and> distinct (map Barcode.code (barcodes oat_store))
   \<and> (\<exists>es. insert_barcode oat_store oat_barcode = (Inl es, oat_store)
        \<and> UniquenessViolation \<in> set es)"
proof -
  have m: "Barcode.code oat_barcode \<in> set (map Barcode.code (barcodes oat_store))"
    by (simp add: oat_store_rows)
  note t = barcode_code_unique [of oat_store oat_barcode]
  from t [THEN conjunct1, THEN mp, OF reachable_oat_store]
    t [THEN conjunct2, THEN mp, OF m] reachable_oat_store m
  show ?thesis by (intro conjI)
qed

text \<open>
  C2: in any state of the store, inserting a Barcode or a ScanHistory row whose
  food_item_id is the id of no stored FoodItem fails, reports a
  ReferentialIntegrityError and leaves the state as it was; so in every reachable state
  each stored Barcode and each stored ScanHistory row has the id of a stored FoodItem.
\<close>

theorem food_item_id_references_food_item:
  "(get_food_item s (Barcode.food_item_id b) = None \<longrightarrow>
      (\<exists>es. insert_barcode s b = (Inl es, s) \<and> ReferentialIntegrityError \<in> set es))
   \<and> (get_food_item s (ScanHistory.food_item_id h) = None \<longrightarrow>
      (\<exists>es. insert_scan_history s h = (Inl es, s) \<and> ReferentialIntegrityError \<in> set es))
   \<and> (reachable s \<longrightarrow>
        (\<forall>r \<in> set (barcodes s). get_food_item s (Barcode.food_item_id r) \<noteq> None)
      \<and> (\<forall>r \<in> set (scan_history s). get_food_item s (ScanHistory.food_item_id r) \<noteq> None))"
  using insert_barcode_dangling insert_scan_history_dangling
    reachable_barcodes_reference reachable_scan_history_reference
  by blast

theorem food_item_id_references_food_item_witness:
  "get_food_item empty_store (Barcode.food_item_id oat_barcode) = None
   \<and> (\<exists>es. insert_barcode empty_store oat_barcode = (Inl es, empty_store)
        \<and> ReferentialIntegrityError \<in> set es)
   \<and> get_food_item empty_store (ScanHistory.food_item_id oat_scan) = None
   \<and> (\<exists>es. insert_scan_history empty_store oat_scan = (Inl es, empty_store)
        \<and> ReferentialIntegrityError \<in> set es)
   \<and> reachable oat_store
   \<and> barcodes oat_store \<noteq> [] \<and> scan_history oat_store \<noteq> []
   \<and> list_all (\<lambda>r. get_food_item oat_store (Barcode.food_item_id r) \<noteq> None)
        (barcodes oat_store)
   \<and> list_all (\<lambda>r. get_food_item oat_store (ScanHistory.food_item_id r) \<noteq> None)
        (scan_history oat_store)"
proof -
  have d1: "get_food_item empty_store (Barcode.food_item_id oat_barcode) = None"
    by (simp add: get_food_item_def empty_store_def)
  have d2: "get_food_item empty_store (ScanHistory.food_item_id oat_scan) = None"
    by (simp add: get_food_item_def empty_store_def)
  have ne: "barcodes oat_store \<noteq> []" "scan_history oat_store \<noteq> []"
    by (simp_all add: oat_store_rows)
  note t = food_item_id_references_food_item [of empty_store oat_barcode oat_scan]
  note u = food_item_id_references_food_item [of oat_store oat_barcode oat_scan,
      THEN conjunct2, THEN conjunct2, THEN mp, OF reachable_oat_store]
  from t [THEN conjunct1, THEN mp, OF d1] t [THEN conjunct2, THEN conjunct1, THEN mp, OF d2]
    u [THEN conjunct1, folded list_all_iff] u [THEN conjunct2, folded list_all_iff]
    d1 d2 ne reachable_oat_store
  show ?thesis by (intro conjI)
qed

subsection \<open>Persisting a FoodItemCreate\<close>

lemma err_Nil_projr: "err f r = [] \<Longrightarrow> r = Inr (projr r)"
  by (cases r) simp_all

lemma FoodItemCreate_fields_of:
  assumes "validate_FoodItemCreate k = Inr x"
  shows "required String_type (str_field (Some 255)) (food_kwargs.name k) = Inr (FoodItemCreate.name x)
     \<and> optional (str_field (Some 255)) (food_kwargs.brand k) = Inr (FoodItemCreate.brand x)
     \<and> optional (str_field (Some 1000)) (food_kwargs.description k)
         = Inr (FoodItemCreate.description x)
     \<and> optional decimal_field (food_kwargs.energy_kj k) = Inr (FoodItemCreate.energy_kj x)
     \<and> optional decimal_field (food_kwargs.energy_kcal k) = Inr (FoodItemCreate.energy_kcal x)
     \<and> optional decimal_field (food_kwargs.fat k) = Inr (FoodItemCreate.fat x)
     \<and> optional decimal_field (food_kwargs.saturated_fat k) = Inr (FoodItemCreate.saturated_fat x)
     \<and> optional decimal_field (food_kwargs.carbohydrates k) = Inr (FoodItemCreate.carbohydrates x)
     \<and> optional decimal_field (food_kwargs.sugars k) = Inr (FoodItemCreate.sugars x)
     \<and> optional decimal_field (food_kwargs.fiber k) = Inr (FoodItemCreate.fiber x)
     \<and> optional decimal_field (food_kwargs.protein k) = Inr (FoodItemCreate.protein x)
     \<and> optional decimal_field (food_kwargs.salt k) = Inr (FoodItemCreate.salt x)
     \<and> optional decimal_field (food_kwargs.sodium k) = Inr (FoodItemCreate.sodium x)"
proof -
  from assms have ok: "\<exists>x. validate_FoodItemCreate k = Inr x" by blast
  note e = ok [unfolded FoodItemCreate_accepted_iff]
  from assms show ?thesis
    unfolding validate_FoodItemCreate_def Let_def
    using e by (auto dest!: err_Nil_projr split: if_splits)
qed

lemma required_str_again:
  "required t (str_field m) a = Inr s \<Longrightarrow> required t (str_field m) (Given s) = Inr s"
  by (cases a; cases m) (auto split: if_splits)

lemma optional_str_again:
  "optional (str_field m) a = Inr y \<Longrightarrow> optional (str_field m) (dump y) = Inr y"
  by (cases a; cases m; cases y) (auto split: if_splits)

lemma optional_decimal_again:
  "optional decimal_field a = Inr y \<Longrightarrow> optional decimal_field (dump y) = Inr y"
  by (cases a; cases y) (auto split: if_splits)

lemma optional_NutriScore_dump:
  "optional NutriScore_field (dump (map_option NutriScore_value y)) = Inr y"
  by (cases y) (simp_all add: NutriScore_field_Inr [THEN iffD2])

lemma optional_HealthAssessment_dump:
  "optional HealthAssessment_field (dump (map_option HealthAssessment_value y)) = Inr y"
  by (cases y) (simp_all add: HealthAssessment_field_Inr [THEN iffD2])

lemma optional_Omitted: "optional v Omitted = Inr None"
  by simp

lemma optional_plain_dump: "optional plain_field (dump y) = Inr y"
  by (cases y) simp_all

lemma FoodItem_of_FoodItemCreate:
  assumes "validate_FoodItemCreate k = Inr x"
  shows "validate_FoodItem c (FoodItem_kwargs_of x) =
     (Inr \<lparr>FoodItem.id = None, FoodItem.name = FoodItemCreate.name x,
        FoodItem.brand = FoodItemCreate.brand x,
        FoodItem.description = FoodItemCreate.description x,
        FoodItem.energy_kj = FoodItemCreate.energy_kj x,
        FoodItem.energy_kcal = FoodItemCreate.energy_kcal x,
        FoodItem.fat = FoodItemCreate.fat x,
        FoodItem.saturated_fat = FoodItemCreate.saturated_fat x,
        FoodItem.carbohydrates = FoodItemCreate.carbohydrates x,
        FoodItem.sugars = FoodItemCreate.sugars x,
        FoodItem.fiber = FoodItemCreate.fiber x,
        FoodItem.protein = FoodItemCreate.protein x,
        FoodItem.salt = FoodItemCreate.salt x,
        FoodItem.sodium = FoodItemCreate.sodium x,
        FoodItem.nutri_score = FoodItemCreate.nutri_score x,
        FoodItem.health_assessment = FoodItemCreate.health_assessment x,
        FoodItem.ingredients = FoodItemCreate.ingredients x,
        FoodItem.allergens = FoodItemCreate.allergens x,
        FoodItem.categories = FoodItemCreate.categories x,
        FoodItem.created_at = readings c (taken c),
        FoodItem.updated_at = readings c (Suc (taken c))\<rparr>,
      c\<lparr>taken := Suc (Suc (taken c))\<rparr>)"
proof -
  note f = FoodItemCreate_fields_of [OF assms]
  have g: "required String_type (str_field (Some 255)) (Given (FoodItemCreate.name x))
        = Inr (FoodItemCreate.name x)"
      "optional (str_field (Some 255)) (dump (FoodItemCreate.brand x))
        = Inr (FoodItemCreate.brand x)"
      "optional (str_field (Some 1000)) (dump (FoodItemCreate.description x))
        = Inr (FoodItemCreate.description x)"
      "optional decimal_field (dump (FoodItemCreate.energy_kj x)) = Inr (FoodItemCreate.energy_kj x)"
      "optional decimal_field (dump (FoodItemCreate.energy_kcal x)) = Inr (FoodItemCreate.energy_kcal x)"
      "optional decimal_field (dump (FoodItemCreate.fat x)) = Inr (FoodItemCreate.fat x)"
      "optional decimal_field (dump (FoodItemCreate.saturated_fat x)) = Inr (FoodItemCreate.saturated_fat x)"
      "optional decimal_field (dump (FoodItemCreate.carbohydrates x)) = Inr (FoodItemCreate.carbohydrates x)"
      "optional decimal_field (dump (FoodItemCreate.sugars x)) = Inr (FoodItemCreate.sugars x)"
      "optional decimal_field (dump (FoodItemCreate.fiber x)) = Inr (FoodItemCreate.fiber x)"
      "optional decimal_field (dump (FoodItemCreate.protein x)) = Inr (FoodItemCreate.protein x)"
      "optional decimal_field (dump (FoodItemCreate.salt x)) = Inr (FoodItemCreate.salt x)"
      "optional decimal_field (dump (FoodItemCreate.sodium x)) = Inr (FoodItemCreate.sodium x)"
    using f by (blast intro: required_str_again optional_str_again optional_decimal_again)+
  show ?thesis
    unfolding validate_FoodItem_def Let_def FoodItem_kwargs_of_def
    by (simp add: g optional_NutriScore_dump optional_HealthAssessment_dump
        optional_plain_dump utcnow_def optional_Omitted
        del: required.simps optional.simps str_field.simps decimal_field.simps dump.simps)
qed

lemma le_fold_max: "(a::int) \<le> fold max xs a"
proof (induction xs arbitrary: a)
  case Nil
  show ?case by simp
next
  case (Cons x xs)
  have "a \<le> max x a" by simp
  also have "\<dots> \<le> fold max xs (max x a)" by (rule Cons.IH)
  finally show ?case by simp
qed

lemma mem_le_fold_max: "(i::int) \<in> set xs \<Longrightarrow> i \<le> fold max xs a"
proof (induction xs arbitrary: a)
  case Nil
  then show ?case by simp
next
  case (Cons x xs)
  show ?case
  proof (cases "i = x")
    case True
    have "i \<le> max x a" using True by simp
    also have "\<dots> \<le> fold max xs (max x a)" by (rule le_fold_max)
    finally show ?thesis by simp
  next
    case False
    with Cons.prems have "i \<in> set xs" by simp
    then show ?thesis using Cons.IH by simp
  qed
qed

lemma new_id_fresh: "Some (new_id ids) \<notin> set ids"
proof
  assume "Some (new_id ids) \<in> set ids"
  then have "new_id ids \<in> set (List.map_filter (\<lambda>i. i) ids)"
    by (force simp: List.map_filter_def)
  then have "new_id ids \<le> fold max (List.map_filter (\<lambda>i. i) ids) 0"
    by (rule mem_le_fold_max)
  then show False by (simp add: new_id_def)
qed

lemma find_None_append: "find P xs = None \<Longrightarrow> find P (xs @ ys) = find P ys"
  by (simp add: find_append)

lemma get_appended_food_item:
  assumes "FoodItem.id f = Some (new_id (map FoodItem.id (food_items s)))"
  shows "get_food_item (s\<lparr>food_items := food_items s @ [f]\<rparr>)
           (new_id (map FoodItem.id (food_items s))) = Some f"
proof -
  have "\<not> (\<exists>r. r \<in> set (food_items s)
            \<and> FoodItem.id r = Some (new_id (map FoodItem.id (food_items s))))"
  proof (rule notI)
    assume "\<exists>r. r \<in> set (food_items s)
            \<and> FoodItem.id r = Some (new_id (map FoodItem.id (food_items s)))"
    then obtain r where "r \<in> set (food_items s)"
      and "FoodItem.id r = Some (new_id (map FoodItem.id (food_items s)))" by blast
    then have "Some (new_id (map FoodItem.id (food_items s)))
        \<in> set (map FoodItem.id (food_items s))" by force
    with new_id_fresh show False by blast
  qed
  then have "find (\<lambda>r. FoodItem.id r = Some (new_id (map FoodItem.id (food_items s))))
          (food_items s) = None"
    by (simp add: find_None_iff)
  then show ?thesis
    using assms by (simp add: get_food_item_def find_None_append)
qed

text \<open>
  C4: a FoodItemCreate that the validation built is persisted as a FoodItem without
  errors; the stored row has an id, reading the store at that id gives the row back, and
  each of the eighteen shared fields of the row is the field of the FoodItemCreate: the
  name, the brand, the description, the ten Decimal fields with their sign, coefficient
  and exponent, the two enumeration members and the three lists.
\<close>

theorem food_item_round_trip:
  assumes "validate_FoodItemCreate k = Inr x"
  shows "\<exists>f s' c' i. create_food_item c s x = ((Inr f, s'), c')
      \<and> FoodItem.id f = Some i \<and> get_food_item s' i = Some f
      \<and> FoodItem.name f = FoodItemCreate.name x
      \<and> FoodItem.brand f = FoodItemCreate.brand x
      \<and> FoodItem.description f = FoodItemCreate.description x
      \<and> FoodItem.energy_kj f = FoodItemCreate.energy_kj x
      \<and> FoodItem.energy_kcal f = FoodItemCreate.energy_kcal x
      \<and> FoodItem.fat f = FoodItemCreate.fat x
      \<and> FoodItem.saturated_fat f = FoodItemCreate.saturated_fat x
      \<and> FoodItem.carbohydrates f = FoodItemCreate.carbohydrates x
      \<and> FoodItem.sugars f = FoodItemCreate.sugars x
      \<and> FoodItem.fiber f = FoodItemCreate.fiber x
      \<and> FoodItem.protein f = FoodItemCreate.protein x
      \<and> FoodItem.salt f = FoodItemCreate.salt x
      \<and> FoodItem.sodium f = FoodItemCreate.sodium x
      \<and> FoodItem.nutri_score f = FoodItemCreate.nutri_score x
      \<and> FoodItem.health_assessment f = FoodItemCreate.health_assessment x
      \<and> FoodItem.ingredients f = FoodItemCreate.ingredients x
      \<and> FoodItem.allergens f = FoodItemCreate.allergens x
      \<and> FoodItem.categories f = FoodItemCreate.categories x"
proof -
  note v = FoodItem_of_FoodItemCreate [OF assms, of c]
  show ?thesis
    unfolding create_food_item_def v
    by (simp add: insert_food_item_def Let_def get_appended_food_item)
qed

lemma validate_muesli: "validate_FoodItemCreate muesli_kwargs = Inr muesli"
  unfolding validate_FoodItemCreate_def muesli_kwargs_def muesli_def Let_def
  by (simp add: NutriScore_field_cases HealthAssessment_field_cases)

text \<open>
  A FoodItemCreate with every field populated, persisted into a store that already holds
  a FoodItem.
\<close>

theorem food_item_round_trip_witness:
  "validate_FoodItemCreate muesli_kwargs = Inr muesli
   \<and> (\<exists>f s' c' i.
        create_food_item \<lparr>readings = \<lambda>n. Datetime (int n), taken = 0\<rparr> oat_store muesli
          = ((Inr f, s'), c')
      \<and> FoodItem.id f = Some i \<and> get_food_item s' i = Some f
      \<and> FoodItem.name f = FoodItemCreate.name muesli
      \<and> FoodItem.brand f = FoodItemCreate.brand muesli
      \<and> FoodItem.description f = FoodItemCreate.description muesli
      \<and> FoodItem.energy_kj f = FoodItemCreate.energy_kj muesli
      \<and> FoodItem.energy_kcal f = FoodItemCreate.energy_kcal muesli
      \<and> FoodItem.fat f = FoodItemCreate.fat muesli
      \<and> FoodItem.saturated_fat f = FoodItemCreate.saturated_fat muesli
      \<and> FoodItem.carbohydrates f = FoodItemCreate.carbohydrates muesli
      \<and> FoodItem.sugars f = FoodItemCreate.sugars muesli
      \<and> FoodItem.fiber f = FoodItemCreate.fiber muesli
      \<and> FoodItem.protein f = FoodItemCreate.protein muesli
      \<and> FoodItem.salt f = FoodItemCreate.salt muesli
      \<and> FoodItem.sodium f = FoodItemCreate.sodium muesli
      \<and> FoodItem.nutri_score f = FoodItemCreate.nutri_score muesli
      \<and> FoodItem.health_assessment f = FoodItemCreate.health_assessment muesli
      \<and> FoodItem.ingredients f = FoodItemCreate.ingredients muesli
      \<and> FoodItem.allergens f = FoodItemCreate.allergens muesli
      \<and> FoodItem.categories f = FoodItemCreate.categories muesli)"
  using validate_muesli
    food_item_round_trip [OF validate_muesli, of "\<lparr>readings = \<lambda>n. Datetime (int n), taken = 0\<rparr>" oat_store]
  by (rule conjI)

subsection \<open>Scanning a barcode\<close>

lemma find_code_None:
  assumes "b \<notin> set (map Barcode.code (barcodes s))"
  shows "find (\<lambda>r. Barcode.code r = b) (barcodes s) = None"
  using assms by (force simp: find_None_iff)

lemma scan_miss:
  assumes "b \<notin> set (map Barcode.code (barcodes s))"
  shows "scan snapshot c s b =
     (Inr \<lparr>ScanResult.barcode = b, ScanResult.found = False, ScanResult.food_item = None,
        ScanResult.nutri_score = None, ScanResult.health_assessment = None,
        ScanResult.scan_timestamp = readings c (taken c)\<rparr>,
      c\<lparr>taken := Suc (taken c)\<rparr>)"
  unfolding scan_def find_code_None [OF assms]
  by (simp add: ScanResult_found_food_item)

text \<open>
  C9: when no stored Barcode has the code "5901234123457", scanning that code answers with
  a ScanResult whose barcode is "5901234123457", whose found flag is false and whose
  food_item is None.
\<close>

theorem scan_miss_5901234123457:
  assumes "''5901234123457'' \<notin> set (map Barcode.code (barcodes s))"
  shows "\<exists>r c'. scan snapshot c s ''5901234123457'' = (Inr r, c')
      \<and> ScanResult.barcode r = ''5901234123457'' \<and> \<not> ScanResult.found r
      \<and> ScanResult.food_item r = None"
  unfolding scan_miss [OF assms] by simp

theorem scan_miss_5901234123457_witness:
  "''5901234123457'' \<notin> set (map Barcode.code (barcodes oat_store))
   \<and> (\<exists>r c'. scan (\<lambda>f. [''name'' \<mapsto> FoodItem.name f])
          \<lparr>readings = \<lambda>n. Datetime (int n), taken = 0\<rparr> oat_store ''5901234123457''
        = (Inr r, c')
      \<and> ScanResult.barcode r = ''5901234123457'' \<and> \<not> ScanResult.found r
      \<and> ScanResult.food_item r = None)
   \<and> (\<exists>r c'. scan (\<lambda>f. [''name'' \<mapsto> FoodItem.name f])
          \<lparr>readings = \<lambda>n. Datetime (int n), taken = 0\<rparr> oat_store ''4006040000112''
        = (Inr r, c')
      \<and> ScanResult.found r \<and> ScanResult.food_item r = Some [''name'' \<mapsto> ''Oat flakes''])"
proof -
  have a: "''5901234123457'' \<notin> set (map Barcode.code (barcodes oat_store))"
    by (simp add: oat_store_rows oat_barcode_def)
  have hit: "\<exists>r c'. scan (\<lambda>f. [''name'' \<mapsto> FoodItem.name f])
          \<lparr>readings = \<lambda>n. Datetime (int n), taken = 0\<rparr> oat_store ''4006040000112''
        = (Inr r, c')
      \<and> ScanResult.found r \<and> ScanResult.food_item r = Some [''name'' \<mapsto> ''Oat flakes'']"
    unfolding scan_def oat_store_rows
    by (simp add: get_food_item_def oat_barcode_def oat_flakes_def validate_ScanResult_def
        utcnow_def NutriScore_field_cases HealthAssessment_field_cases)
  from a scan_miss_5901234123457 [OF a] hit show ?thesis by (intro conjI)
qed

end
